theory Spec2Isabelle
  imports Complex_Main
begin

section \<open>JavaScript strings\<close>

text \<open>
  A JavaScript string is a sequence of UTF-16 code units, and the regular expressions of
  this program (none carries the \<open>u\<close> flag) work on code units. A string is therefore
  a list of code units, each a natural number; \<open>js\<close> turns an ASCII literal into one.
\<close>

type_synonym jstring = "nat list"

definition js :: "string \<Rightarrow> jstring" where
  "js s = map of_char s"

text \<open>The class \<open>\s\<close> (white space and line terminators), also what \<open>trim\<close> removes.\<close>

definition is_ws :: "nat \<Rightarrow> bool" where
  "is_ws c = (c = 9 \<or> c = 10 \<or> c = 11 \<or> c = 12 \<or> c = 13 \<or> c = 32 \<or> c = 160
     \<or> c = 5760 \<or> (8192 \<le> c \<and> c \<le> 8202) \<or> c = 8232 \<or> c = 8233 \<or> c = 8239
     \<or> c = 8287 \<or> c = 12288 \<or> c = 65279)"

text \<open>The class \<open>[a-z0-9]\<close>.\<close>

definition is_lower_alnum :: "nat \<Rightarrow> bool" where
  "is_lower_alnum c = ((97 \<le> c \<and> c \<le> 122) \<or> (48 \<le> c \<and> c \<le> 57))"

text \<open>
  \<open>toLowerCase\<close>, one code unit at a time. The units whose lower-case form holds an ASCII
  letter are the ASCII capitals, U+0130 (which becomes \<open>i\<close> followed by U+0307) and the
  Kelvin sign U+212A (which becomes \<open>k\<close>). Every other unit is kept as it is: where
  JavaScript maps such a unit, it maps one unit outside ASCII to one unit outside ASCII,
  and this program only ever replaces the result by a space or compares it with ASCII text.
\<close>

definition lower_unit :: "nat \<Rightarrow> jstring" where
  "lower_unit c =
     (if 65 \<le> c \<and> c \<le> 90 then [c + 32]
      else if c = 304 then [105, 775]
      else if c = 8490 then [107]
      else [c])"

definition toLowerCase :: "jstring \<Rightarrow> jstring" where
  "toLowerCase s = concat (map lower_unit s)"

text \<open>\<open>s.startsWith(p)\<close>, \<open>s.endsWith(p)\<close> and \<open>s.includes(k)\<close>.\<close>

fun startsWith :: "jstring \<Rightarrow> jstring \<Rightarrow> bool" where
  "startsWith s [] = True"
| "startsWith [] (p # ps) = False"
| "startsWith (c # cs) (p # ps) = (c = p \<and> startsWith cs ps)"

definition endsWith :: "jstring \<Rightarrow> jstring \<Rightarrow> bool" where
  "endsWith s p = (length p \<le> length s \<and> drop (length s - length p) s = p)"

fun str_includes :: "jstring \<Rightarrow> jstring \<Rightarrow> bool" where
  "str_includes [] k = (k = [])"
| "str_includes (c # cs) k = (startsWith (c # cs) k \<or> str_includes cs k)"

text \<open>
  \<open>s.replace(/\s+/g, " ")\<close>: every maximal run of white space becomes one space. The flag
  says whether the unit before was white space (the run has already been replaced).
\<close>

fun collapse_from :: "bool \<Rightarrow> jstring \<Rightarrow> jstring" where
  "collapse_from inrun [] = []"
| "collapse_from inrun (c # cs) =
     (if is_ws c then (if inrun then collapse_from True cs else 32 # collapse_from True cs)
      else c # collapse_from False cs)"

definition collapse_ws :: "jstring \<Rightarrow> jstring" where
  "collapse_ws s = collapse_from False s"

definition trimStart :: "jstring \<Rightarrow> jstring" where
  "trimStart s = dropWhile is_ws s"

definition trimEnd :: "jstring \<Rightarrow> jstring" where
  "trimEnd s = rev (dropWhile is_ws (rev s))"

definition trim :: "jstring \<Rightarrow> jstring" where
  "trim s = trimEnd (trimStart s)"

text \<open>
  \<open>s.split(d)\<close> for a separator of one code unit: the pieces between the separators,
  empty pieces included, so the result is never the empty list (\<open>"".split(" ")\<close> is
  \<open>[""]\<close>).
\<close>

fun split_on :: "nat \<Rightarrow> jstring \<Rightarrow> jstring list" where
  "split_on d [] = [[]]"
| "split_on d (c # cs) =
     (if c = d then [] # split_on d cs
      else (case split_on d cs of [] \<Rightarrow> [[c]] | w # ws \<Rightarrow> (c # w) # ws))"

text \<open>\<open>xs.join(sep)\<close> on an array of strings.\<close>

fun join_with :: "jstring \<Rightarrow> jstring list \<Rightarrow> jstring" where
  "join_with sep [] = []"
| "join_with sep [x] = x"
| "join_with sep (x # y # ys) = x @ sep @ join_with sep (y # ys)"

section \<open>Text normalizer\<close>

text \<open>
  \<open>normalizeForMatch\<close> is the same function in both search routes, and \<open>normalize\<close> of
  the page is the same again:
  \<^verbatim>\<open>value.toLowerCase().replace(/[^a-z0-9\s]/g, " ").replace(/\s+/g, " ").trim()\<close>
\<close>

definition blank_other :: "jstring \<Rightarrow> jstring" where
  "blank_other s = map (\<lambda>c. if is_lower_alnum c \<or> is_ws c then c else 32) s"

definition normalizeForMatch :: "jstring \<Rightarrow> jstring" where
  "normalizeForMatch v = trim (collapse_ws (blank_other (toLowerCase v)))"

text \<open>\<open>tokenize\<close> of the curated route: no stemming.\<close>

definition tokenize_local :: "jstring \<Rightarrow> jstring list" where
  "tokenize_local v = filter (\<lambda>t. length t > 1) (split_on 32 (normalizeForMatch v))"

text \<open>\<open>tokenize\<close> of the live route: the same, then a suffix is dropped from each token.\<close>

definition stem :: "jstring \<Rightarrow> jstring" where
  "stem t =
     (if length t > 4 \<and> endsWith t (js ''es'') then take (length t - 2) t
      else if length t > 3 \<and> endsWith t (js ''s'') then take (length t - 1) t
      else t)"

definition tokenize_live :: "jstring \<Rightarrow> jstring list" where
  "tokenize_live v =
     map stem (filter (\<lambda>t. length t > 1) (split_on 32 (normalizeForMatch v)))"

section \<open>Link stripper and text cleaner\<close>

text \<open>
  The flag \<open>i\<close> of a regular expression without the flag \<open>u\<close> folds case through
  \<open>toUpperCase\<close> and never lets a unit outside ASCII match an ASCII letter, so against
  a lower-case ASCII pattern it is ASCII case folding of the text.
\<close>

definition ascii_lower :: "nat \<Rightarrow> nat" where
  "ascii_lower c = (if 65 \<le> c \<and> c \<le> 90 then c + 32 else c)"

definition starts_ci :: "jstring \<Rightarrow> jstring \<Rightarrow> bool" where
  "starts_ci s p = startsWith (map ascii_lower s) p"

text \<open>
  \<open>(?:https?:\/\/|www\.)\<close> at the start of \<open>s\<close>: the text after the prefix, or
  \<open>None\<close>. The three prefixes exclude one another, so there is nothing to backtrack.
\<close>

definition link_prefix :: "jstring \<Rightarrow> jstring option" where
  "link_prefix s =
     (if starts_ci s (js ''http://'') then Some (drop 7 s)
      else if starts_ci s (js ''https://'') then Some (drop 8 s)
      else if starts_ci s (js ''www.'') then Some (drop 4 s)
      else None)"

text \<open>
  \<open>\[[^\]]+\]\((?:https?:\/\/|www\.)[^)]+\)\<close> at the start of \<open>s\<close>: the text after the
  match, or \<open>None\<close>. The label runs to the first \<open>]\<close> and the address to the first
  \<open>)\<close>; both must be non-empty.
\<close>

definition match_md_link :: "jstring \<Rightarrow> jstring option" where
  "match_md_link s =
     (case s of
        [] \<Rightarrow> None
      | c # s1 \<Rightarrow>
          if c = 91 \<and> takeWhile (\<lambda>x. x \<noteq> 93) s1 \<noteq> []
          then (case dropWhile (\<lambda>x. x \<noteq> 93) s1 of
                  _ # p # s2 \<Rightarrow>
                    if p = 40
                    then (case link_prefix s2 of
                            None \<Rightarrow> None
                          | Some s3 \<Rightarrow>
                              if takeWhile (\<lambda>x. x \<noteq> 41) s3 \<noteq> []
                              then (case dropWhile (\<lambda>x. x \<noteq> 41) s3 of
                                      [] \<Rightarrow> None
                                    | _ # rest \<Rightarrow> Some rest)
                              else None)
                    else None
                | _ \<Rightarrow> None)
          else None)"

text \<open>\<open>(?:https?:\/\/|www\.)\S+\<close> at the start of \<open>s\<close>: the text after the match.\<close>

definition match_bare_link :: "jstring \<Rightarrow> jstring option" where
  "match_bare_link s =
     (case link_prefix s of
        None \<Rightarrow> None
      | Some r \<Rightarrow>
          (case r of
             [] \<Rightarrow> None
           | c # _ \<Rightarrow> if is_ws c then None else Some (dropWhile (\<lambda>x. \<not> is_ws x) r)))"

text \<open>
  \<open>s.replace(re, out)\<close> with the flag \<open>g\<close>, for a pattern given by its matcher \<open>m\<close>:
  at the start of the text the matcher returns the replacement and the text after the
  match, or \<open>None\<close>. The scan goes from the left; where the pattern matches, the
  replacement is put out and the scan goes on after the match, otherwise the unit is
  kept and the scan goes on at the next one. Every pattern of this program matches at
  least one unit, which the test on the lengths records.
\<close>

function replace_all :: "(jstring \<Rightarrow> (jstring \<times> jstring) option) \<Rightarrow> jstring \<Rightarrow> jstring" where
  "replace_all m [] = []"
| "replace_all m (c # cs) =
     (case m (c # cs) of
        None \<Rightarrow> c # replace_all m cs
      | Some (out, rest) \<Rightarrow>
          if length rest \<le> length cs then out @ replace_all m rest
          else c # replace_all m cs)"
  by pat_completeness auto
termination
  by (relation "measure (\<lambda>(m, s). length s)") auto

definition deleting :: "(jstring \<Rightarrow> jstring option) \<Rightarrow> jstring \<Rightarrow> (jstring \<times> jstring) option" where
  "deleting m s = (case m s of None \<Rightarrow> None | Some rest \<Rightarrow> Some ([], rest))"

definition stripExternalLinks :: "jstring \<Rightarrow> jstring" where
  "stripExternalLinks v =
     trim (collapse_ws
       (replace_all (deleting match_bare_link) (replace_all (deleting match_md_link) v)))"

text \<open>\<open>&amp;\<close> becomes \<open>&\<close>.\<close>

definition match_amp :: "jstring \<Rightarrow> (jstring \<times> jstring) option" where
  "match_amp s = (if startsWith s (js ''&amp;'') then Some (js ''&'', drop 5 s) else None)"

text \<open>\<open>[*_`>#~]\<close>: the emphasis marks that \<open>cleanText\<close> deletes.\<close>

definition is_markup :: "nat \<Rightarrow> bool" where
  "is_markup c = (c = 42 \<or> c = 95 \<or> c = 96 \<or> c = 62 \<or> c = 35 \<or> c = 126)"

text \<open>
  \<open>\s*\n\s*\<close>: a run of white space that holds a line feed; the whole run is the match.
\<close>

definition match_newline_run :: "jstring \<Rightarrow> (jstring \<times> jstring) option" where
  "match_newline_run s =
     (if 10 \<in> set (takeWhile is_ws s) then Some (js '' '', dropWhile is_ws s) else None)"

definition cleanText :: "jstring \<Rightarrow> jstring" where
  "cleanText v =
     trim (collapse_ws
       (replace_all match_newline_run
         (filter (\<lambda>c. \<not> is_markup c)
           (replace_all match_amp (stripExternalLinks v)))))"

text \<open>\<open>[|]+\<close> becomes a space.\<close>

definition match_pipes :: "jstring \<Rightarrow> (jstring \<times> jstring) option" where
  "match_pipes s =
     (case s of
        [] \<Rightarrow> None
      | c # _ \<Rightarrow> if c = 124 then Some (js '' '', dropWhile (\<lambda>x. x = 124) s) else None)"

text \<open>
  \<open>\s*[-\<dots>]{2,}\s*\<close> becomes \<open>" - "\<close>; the class holds the hyphen, the en dash
  U+2013 and the em dash U+2014.
\<close>

definition is_dash :: "nat \<Rightarrow> bool" where
  "is_dash c = (c = 45 \<or> c = 8211 \<or> c = 8212)"

definition match_dashes :: "jstring \<Rightarrow> (jstring \<times> jstring) option" where
  "match_dashes s =
     (let a = dropWhile is_ws s in
      if length (takeWhile is_dash a) \<ge> 2
      then Some (js '' - '', dropWhile is_ws (dropWhile is_dash a))
      else None)"

text \<open>\<open>([!?.,])\1{1,}\<close> becomes the mark once.\<close>

definition is_mark :: "nat \<Rightarrow> bool" where
  "is_mark c = (c = 33 \<or> c = 63 \<or> c = 46 \<or> c = 44)"

definition match_repeat :: "jstring \<Rightarrow> (jstring \<times> jstring) option" where
  "match_repeat s =
     (case s of
        c # d # _ \<Rightarrow>
          if is_mark c \<and> d = c then Some ([c], dropWhile (\<lambda>x. x = c) s) else None
      | _ \<Rightarrow> None)"

text \<open>\<open>\s+([!?.,;:])\<close> becomes the mark alone.\<close>

definition is_punct :: "nat \<Rightarrow> bool" where
  "is_punct c = (is_mark c \<or> c = 59 \<or> c = 58)"

definition match_space_punct :: "jstring \<Rightarrow> (jstring \<times> jstring) option" where
  "match_space_punct s =
     (case s of
        [] \<Rightarrow> None
      | c # _ \<Rightarrow>
          if is_ws c
          then (case dropWhile is_ws s of
                  [] \<Rightarrow> None
                | p # rest \<Rightarrow> if is_punct p then Some ([p], rest) else None)
          else None)"

definition polishSentence :: "jstring \<Rightarrow> jstring" where
  "polishSentence v =
     trim (collapse_ws
       (replace_all match_space_punct
         (replace_all match_repeat
           (replace_all match_dashes
             (replace_all match_pipes (cleanText v))))))"

text \<open>
  \<open>s.split(/(?<=[.!?])\s+/)\<close>: a run of white space that follows a full stop, an
  exclamation mark or a question mark separates two pieces. The flag says whether the
  unit before is such a mark.
\<close>

definition is_stop :: "nat \<Rightarrow> bool" where
  "is_stop c = (c = 46 \<or> c = 33 \<or> c = 63)"

function split_after_stop :: "bool \<Rightarrow> jstring \<Rightarrow> jstring list" where
  "split_after_stop after [] = [[]]"
| "split_after_stop after (c # cs) =
     (if after \<and> is_ws c then [] # split_after_stop False (dropWhile is_ws cs)
      else (case split_after_stop (is_stop c) cs of
              [] \<Rightarrow> [[c]]
            | w # ws \<Rightarrow> (c # w) # ws))"
  by pat_completeness auto
termination
  by (relation "measure (\<lambda>(a, s). length s)")
     (auto simp: less_Suc_eq_le length_dropWhile_le)

definition splitSentences :: "jstring \<Rightarrow> jstring list" where
  "splitSentences v =
     filter (\<lambda>sentence. length sentence > 0)
       (map polishSentence (split_after_stop False (polishSentence v)))"

section \<open>Data model\<close>

datatype SearchType = Howto | Where

record VideoClip =
  clip_title :: jstring
  clip_note :: jstring
  segments :: "(jstring \<times> jstring) list"

text \<open>A question of the FAQ with its answer is a pair; so is a segment of a clip.\<close>

record KnowledgeEntry =
  kb_id :: jstring
  kb_title :: jstring
  aliases :: "jstring list"
  whereToFind :: jstring
  howToUse :: jstring
  tips :: "jstring list"
  kb_references :: "jstring list"
  kb_redditNotes :: "jstring list"
  kb_faq :: "(jstring \<times> jstring) list"
  kb_video :: "VideoClip option"

record SearchResult =
  ident :: jstring
  title :: jstring
  summary :: jstring
  details :: jstring
  source :: jstring
  references :: "jstring list"
  redditNotes :: "jstring list"
  faq :: "(jstring \<times> jstring) list"
  video :: "VideoClip option"

text \<open>What a route answers: the query as trimmed, the mode, and the cards.\<close>

record Response =
  resp_query :: jstring
  resp_type :: SearchType
  results :: "SearchResult list"

text \<open>
  A request without a query is refused (status 400). \<open>TypeError\<close> stands for the
  exception a handler would die of on reading a property of \<open>undefined\<close>.
\<close>

datatype RouteError = MissingQuery | TypeError

section \<open>Curated route\<close>

text \<open>The knowledge table of the curated route.\<close>

definition radiant_heart_entry :: KnowledgeEntry where
  "radiant_heart_entry =
     \<lparr> kb_id = js ''radiant-heart'',
       kb_title = js ''Radiant Heart'',
       aliases = [js ''radiant heart'', js ''radiant hearts'', js ''sentinel heart''],
       whereToFind =
         js ''Radiant Hearts are commonly earned from Sentinel combat loops, especially in corrupted zones and high-alert Sentinel areas.'',
       howToUse =
         js ''Used in advanced crafting and upgrade paths tied to Sentinel-related technology and high-tier progression components.'',
       tips =
         [js ''Use a Sentinel Pillar area as a repeatable combat route.'',
          js ''Carry ammo and shield recharge so you can farm multiple waves in one run.'',
          js ''Deposit rare drops often if inventory is tight.''],
       kb_references =
         [js ''No Man's Sky Wiki (internal summary)'',
          js ''Community route notes (internal summary)''],
       kb_redditNotes =
         [js ''Players often report best drop consistency from sustained Sentinel wave clears.'',
          js ''Many community routes pair Sentinel farms with nearby salvage stops.''],
       kb_faq =
         [(js ''What is the fastest way to farm Radiant Hearts?'',
          js ''A strong loop is repeating Sentinel wave combat near a Pillar, collecting drops, then resetting at another hotspot.''),
         (js ''Do I need a specific biome for Radiant Hearts?'',
          js ''Not strictly, but corrupted or high-Sentinel-pressure zones usually feel most consistent.'')],
       kb_video =
         Some \<lparr> clip_title = js ''Sentinel farming route example'',
           clip_note = js ''In-app storyboard guide. No external video service required.'',
           segments =
           [(js ''00:00 - Prep'',
             js ''Land near a Sentinel Pillar, reload ammo, and verify shield recharge supply.''),
            (js ''00:40 - Trigger'',
             js ''Start Sentinel engagement and maintain line-of-sight control instead of over-chasing.''),
            (js ''01:30 - Collect'',
             js ''Sweep drops between waves and keep one free inventory row for fast looting.''),
            (js ''02:20 - Reset Loop'',
             js ''Move to the next nearby hotspot and repeat for consistent Radiant Heart farming.'')] \<rparr> \<rparr>"

definition living_glass_entry :: KnowledgeEntry where
  "living_glass_entry =
     \<lparr> kb_id = js ''living-glass'',
       kb_title = js ''Living Glass'',
       aliases = [js ''living glass'', js ''lg'', js ''farm income''],
       whereToFind =
         js ''Living Glass is usually crafted from plant-chain materials rather than found as a frequent raw pickup.'',
       howToUse =
         js ''Useful as a reliable mid-game money craft and for select blueprint requirements.'',
       tips =
         [js ''Automate farm ingredients with biodomes or hydroponics.'',
          js ''Craft in batches after each harvest cycle.'',
          js ''Keep a dedicated storage tab for farm chain materials.''],
       kb_references =
         [js ''No Man's Sky crafting chain notes (internal summary)''],
       kb_redditNotes =
         [js ''Community posts frequently suggest Living Glass as a safe early passive income path.''],
       kb_faq =
         [(js ''Is Living Glass better than random loot selling?'',
          js ''For many players, yes. A stable farm chain can outperform random loot runs in consistency.'')],
       kb_video =
         Some \<lparr> clip_title = js ''Living Glass farm layout walkthrough'',
           clip_note = js ''In-app storyboard guide. No external video service required.'',
           segments =
           [(js ''00:00 - Base Layout'',
             js ''Place biodomes/hydroponics in a tight loop near refiners and storage.''),
            (js ''00:45 - Crop Balance'',
             js ''Balance ingredient crops by bottleneck material rather than equal count.''),
            (js ''01:20 - Batch Craft'',
             js ''Harvest all, craft components first, then final Living Glass in one pass.'')] \<rparr> \<rparr>"

definition oxygen_entry :: KnowledgeEntry where
  "oxygen_entry =
     \<lparr> kb_id = js ''oxygen'',
       kb_title = js ''Oxygen'',
       aliases = [js ''oxygen'', js ''o2'', js ''life support''],
       whereToFind =
         js ''Gather from oxygen-rich flora, gas hotspots, and occasional market supply.'',
       howToUse =
         js ''Core utility resource for life support and several refining chains.'',
       tips =
         [js ''Set up an oxygen extractor base as early infrastructure.'',
          js ''Carry backup oxygen stacks before long expeditions.''],
       kb_references =
         [js ''Resource gathering notes (internal summary)''],
       kb_redditNotes =
         [js ''Players commonly prioritize oxygen extraction as an early QoL base.''],
       kb_faq =
         [(js ''Should I buy oxygen or farm it?'',
          js ''Buying is fine short-term, but farming becomes more efficient once your base is established.'')],
       kb_video =
         None \<rparr>"

definition sodium_entry :: KnowledgeEntry where
  "sodium_entry =
     \<lparr> kb_id = js ''sodium'',
       kb_title = js ''Sodium'',
       aliases = [js ''sodium'', js ''hazard protection'', js ''yellow plants''],
       whereToFind =
         js ''Readily harvested from yellow flora on many planets and sometimes purchased at stations or pilots.'',
       howToUse =
         js ''Primary hazard protection refill material.'',
       tips =
         [js ''Keep one dedicated sodium stack in exosuit inventory at all times.'',
          js ''Convert to Sodium Nitrate when needed for stronger refills.''],
       kb_references =
         [js ''Survival resource notes (internal summary)''],
       kb_redditNotes =
         [js ''New-player guides repeatedly emphasize sodium as top-priority carry material.''],
       kb_faq =
         [(js ''How much sodium should I carry?'',
          js ''At least one full stack for exploration-heavy sessions, more for harsh biomes.'')],
       kb_video =
         None \<rparr>"

definition salvaged_data_entry :: KnowledgeEntry where
  "salvaged_data_entry =
     \<lparr> kb_id = js ''salvaged-data'',
       kb_title = js ''Salvaged Data'',
       aliases = [js ''salvaged data'', js ''technology modules'', js ''buried tech''],
       whereToFind =
         js ''Dig up buried technology modules using the Analysis Visor and Terrain Manipulator.'',
       howToUse =
         js ''Spent at the Space Anomaly construction terminal to unlock base parts and tech.'',
       tips =
         [js ''Scan while moving in a wide loop to chain buried tech finds quickly.'',
          js ''Prioritize unlocks that improve power, storage, and farming first.''],
       kb_references =
         [js ''Base progression notes (internal summary)''],
       kb_redditNotes =
         [js ''Community consensus: early Salvaged Data routes accelerate base progression heavily.''],
       kb_faq =
         [(js ''What should I unlock first with Salvaged Data?'',
          js ''Most players prioritize power generation, storage, and farming modules first.'')],
       kb_video =
         None \<rparr>"

definition nanites_entry :: KnowledgeEntry where
  "nanites_entry =
     \<lparr> kb_id = js ''nanites'',
       kb_title = js ''Nanites'',
       aliases = [js ''nanites'', js ''nanite clusters'', js ''upgrade currency''],
       whereToFind =
         js ''Earned from scanning, missions, refining loops, and selling discovered data sources.'',
       howToUse =
         js ''Main currency for tech upgrades and class improvements.'',
       tips =
         [js ''Stack mission board tasks that reward nanites.'',
          js ''Use steady micro-loops instead of waiting for one big source.''],
       kb_references =
         [js ''Upgrade currency notes (internal summary)''],
       kb_redditNotes =
         [js ''Frequent player advice is to combine mission rewards with refining side loops.''],
       kb_faq =
         [(js ''What is a beginner-friendly nanite loop?'',
          js ''Combine station missions with fast scan/refine cycles so progress continues while traveling.'')],
       kb_video =
         None \<rparr>"

definition LOCAL_KNOWLEDGE :: "KnowledgeEntry list" where
  "LOCAL_KNOWLEDGE =
     [radiant_heart_entry,
      living_glass_entry,
      oxygen_entry,
      sodium_entry,
      salvaged_data_entry,
      nanites_entry]"

definition scoreEntry :: "KnowledgeEntry \<Rightarrow> jstring \<Rightarrow> int" where
  "scoreEntry entry query =
     (let normalizedQuery = normalizeForMatch query;
          queryTokens = tokenize_local query;
          score0 = (if normalizeForMatch (kb_title entry) = normalizedQuery then 120 else 0);
          score1 = fold (\<lambda>alias score.
                      if str_includes normalizedQuery (normalizeForMatch alias)
                      then score + 80 else score) (aliases entry) score0;
          searchable = kb_title entry @ js '' '' @ join_with (js '' '') (aliases entry)
            @ js '' '' @ whereToFind entry @ js '' '' @ howToUse entry
            @ js '' '' @ join_with (js '' '') (tips entry);
          searchableTokens = tokenize_local searchable
      in fold (\<lambda>token score. if token \<in> set searchableTokens then score + 12 else score)
           queryTokens score1)"

definition details_block :: "jstring \<Rightarrow> jstring \<Rightarrow> jstring list \<Rightarrow> jstring" where
  "details_block wh how tip_lines =
     join_with (js ''\<newline>'')
       ([js ''Where to find: '' @ wh, js ''How to use: '' @ how, js ''Tips:'']
        @ map (\<lambda>tip. js ''- '' @ tip) tip_lines)"

definition toSearchResult :: "KnowledgeEntry \<Rightarrow> SearchType \<Rightarrow> SearchResult" where
  "toSearchResult entry type =
     \<lparr> ident = kb_id entry,
       title = kb_title entry,
       summary = (if type = Where then whereToFind entry else howToUse entry),
       details = details_block (whereToFind entry) (howToUse entry) (tips entry),
       source = js ''NMS Local KB'',
       references = kb_references entry,
       redditNotes = kb_redditNotes entry,
       faq = kb_faq entry,
       video = kb_video entry \<rparr>"

text \<open>\<open>\s+\<close> becomes a hyphen (in the identifier of a card).\<close>

definition match_ws_run :: "jstring \<Rightarrow> (jstring \<times> jstring) option" where
  "match_ws_run s =
     (case s of
        [] \<Rightarrow> None
      | c # _ \<Rightarrow> if is_ws c then Some (js ''-'', dropWhile is_ws s) else None)"

definition slug :: "jstring \<Rightarrow> jstring" where
  "slug v = replace_all match_ws_run (normalizeForMatch v)"

definition modeLabel :: "SearchType \<Rightarrow> jstring" where
  "modeLabel type = (if type = Where then js ''where-to-find'' else js ''how-to'')"

definition buildNoMatchResult_local :: "jstring \<Rightarrow> SearchType \<Rightarrow> SearchResult" where
  "buildNoMatchResult_local query type =
     \<lparr> ident = js ''no-match-'' @ (if slug query = [] then js ''query'' else slug query),
       title = js ''No exact local match for \"'' @ query @ js ''\" yet'',
       summary = js ''Try a shorter name, singular form, or a nearby material/blueprint term.'',
       details = join_with (js ''\<newline>'')
         [js ''The app is in local-only mode, so it only searches built-in data.'',
          js ''Mode used: '' @ modeLabel type @ js ''.'',
          js ''Suggested next tries:'',
          js ''- Remove extra words (example: use \"radiant heart\" instead of full sentence).'',
          js ''- Search by ingredient or output item.'',
          js ''- Ask a follow-up question in this card so the app can guide alternatives.''],
       source = js ''NMS Local KB'',
       references = [js ''Local knowledge base only''],
       redditNotes =
         [js ''Reddit references are summarized in-app only; no outbound links are provided.''],
       faq = [(js ''Can I still use Reddit info without opening Reddit?'',
               js ''Yes. The app can include summarized Reddit-derived notes inside result details.'')],
       video = None \<rparr>"

text \<open>
  The route handler. The parameters \<open>q\<close> and \<open>type\<close> of the request may be absent;
  the knowledge table is passed in (the handler reads the constant \<open>LOCAL_KNOWLEDGE\<close>).
  \<open>Array.prototype.sort\<close> is stable, and so is \<open>sort_key\<close>.
\<close>

definition parse_type :: "jstring option \<Rightarrow> SearchType" where
  "parse_type typeParam = (if typeParam = Some (js ''where'') then Where else Howto)"

definition GET_local ::
  "KnowledgeEntry list \<Rightarrow> jstring option \<Rightarrow> jstring option \<Rightarrow> RouteError + Response" where
  "GET_local table q typeParam =
     (case map_option trim q of
        None \<Rightarrow> Inl MissingQuery
      | Some query \<Rightarrow>
          if query = [] then Inl MissingQuery
          else
            (let type = parse_type typeParam;
                 scored = map (\<lambda>item. toSearchResult (fst item) type)
                   (take 8
                     (sort_key (\<lambda>item. - snd item)
                       (filter (\<lambda>item. snd item > 0)
                         (map (\<lambda>entry. (entry, scoreEntry entry query)) table))))
             in Inr \<lparr> resp_query = query, resp_type = type,
                      results = (if length scored > 0 then scored
                                 else [buildNoMatchResult_local query type]) \<rparr>))"

section \<open>Live route: scoring\<close>

text \<open>
  A post of the listing, as the route reads it: every field may be absent. The score
  and the number of comments are the integers of the listing.
\<close>

record Post =
  post_id :: "jstring option"
  post_title :: "jstring option"
  selftext :: "jstring option"
  subreddit_name_prefixed :: "jstring option"
  author :: "jstring option"
  score :: "int option"
  num_comments :: "int option"

text \<open>\<open>x ?? d\<close>.\<close>

definition or_else :: "'a option \<Rightarrow> 'a \<Rightarrow> 'a" where
  "or_else x d = (case x of None \<Rightarrow> d | Some v \<Rightarrow> v)"

definition MODE_KEYWORDS :: "SearchType \<Rightarrow> jstring list" where
  "MODE_KEYWORDS type =
     (case type of
        Howto \<Rightarrow> [js ''how'', js ''craft'', js ''build'', js ''farm'', js ''route'',
                  js ''method'', js ''loop'', js ''efficient'', js ''best'', js ''guide'']
      | Where \<Rightarrow> [js ''where'', js ''find'', js ''location'', js ''planet'', js ''system'',
                  js ''station'', js ''spawn'', js ''drop'', js ''vendor''])"

definition META_TITLE_KEYWORDS :: "jstring list" where
  "META_TITLE_KEYWORDS =
     [js ''expedition'', js ''update'', js ''review'', js ''screenshot'', js ''photo'',
      js ''showcase'', js ''trailer'', js ''impressions'']"

definition countTokenOverlap :: "jstring \<Rightarrow> jstring list \<Rightarrow> nat" where
  "countTokenOverlap txt queryTokens =
     (if length queryTokens = 0 then 0
      else (let tokenSet = set (tokenize_live txt)
            in fold (\<lambda>token sum. sum + (if token \<in> tokenSet then 1 else 0)) queryTokens 0))"

definition countKeywordHits :: "jstring \<Rightarrow> jstring list \<Rightarrow> nat" where
  "countKeywordHits txt keywords =
     (if length keywords = 0 then 0
      else (let tokenSet = set (tokenize_live txt)
            in fold (\<lambda>token sum. sum + (if token \<in> tokenSet then 1 else 0)) keywords 0))"

definition hasNmsContext :: "Post \<Rightarrow> bool" where
  "hasNmsContext post =
     (let ctx = normalizeForMatch
            (or_else (post_title post) [] @ js '' '' @ or_else (selftext post) []
             @ js '' '' @ or_else (subreddit_name_prefixed post) [])
      in list_ex (\<lambda>keyword. str_includes ctx keyword)
           [js ''no man s sky'', js ''nomanssky'', js ''nms'', js ''anomaly'',
            js ''sentinel'', js ''atlas''])"

text \<open>
  \<^verbatim>\<open>Math.log10(Math.max((post.score ?? 0) + (post.num_comments ?? 0), 1) + 1)\<close>,
  the constant \<open>engagement\<close> of the scorer.
\<close>

definition engagement_of :: "Post \<Rightarrow> real" where
  "engagement_of post =
     log 10 (max (real_of_int (or_else (score post) 0 + or_else (num_comments post) 0)) 1 + 1)"

text \<open>
  The scorer. Its result is a JavaScript number; the counts are integers and the
  engagement term is a logarithm, so the sum is taken in the real numbers.
\<close>

definition scoreRedditPost :: "Post \<Rightarrow> jstring list \<Rightarrow> SearchType \<Rightarrow> real" where
  "scoreRedditPost post queryTokens type =
     (let title' = cleanText (or_else (post_title post) []);
          body = cleanText (or_else (selftext post) []);
          overlapInTitle = countTokenOverlap title' queryTokens;
          overlapInBody = countTokenOverlap body queryTokens;
          modeHitInTitle = countKeywordHits title' (MODE_KEYWORDS type);
          modeHitInBody = countKeywordHits body (MODE_KEYWORDS type);
          engagement = engagement_of post;
          hasBody = (if length body \<ge> 60 then 1 else 0);
          nmsBoost = (if hasNmsContext post then 2 else 0);
          metaHits = countKeywordHits title' META_TITLE_KEYWORDS;
          queryLooksMeta = list_ex (\<lambda>token. token \<in> set META_TITLE_KEYWORDS) queryTokens;
          metaPenalty = (if metaHits > 0 \<and> \<not> queryLooksMeta then 4 else 0)
      in real overlapInTitle * 10 + real overlapInBody * 4 + real modeHitInTitle * 3
         + real modeHitInBody * 1.5 + engagement * 2 + hasBody + nmsBoost - metaPenalty)"

section \<open>Live route: summarizer and card builder\<close>

text \<open>\<open>xs.filter((item, index) => p(item, index))\<close>, counting the index from \<open>i\<close>.\<close>

fun filter_from :: "nat \<Rightarrow> ('a \<Rightarrow> nat \<Rightarrow> bool) \<Rightarrow> 'a list \<Rightarrow> 'a list" where
  "filter_from i p [] = []"
| "filter_from i p (x # xs) =
     (if p x i then x # filter_from (Suc i) p xs else filter_from (Suc i) p xs)"

definition sentence_score :: "jstring list list \<Rightarrow> jstring \<Rightarrow> int" where
  "sentence_score keywordGroups sentence =
     (let normalized = normalizeForMatch sentence
      in fold (\<lambda>grp sum.
             sum + (if list_ex (\<lambda>keyword. str_includes normalized keyword) grp then 1 else 0))
           keywordGroups 0)"

definition pickBestSentences ::
  "jstring list \<Rightarrow> jstring list list \<Rightarrow> jstring \<Rightarrow> nat \<Rightarrow> jstring list" where
  "pickBestSentences sentences keywordGroups fallback count =
     (let ranked =
            map fst
              (take count
                (filter_from 0 (\<lambda>item index. snd item > 0 \<or> index < count)
                  (sort_key (\<lambda>item. - snd item)
                    (map (\<lambda>sentence. (sentence, sentence_score keywordGroups sentence))
                       sentences))))
      in if length ranked > 0 then ranked else [fallback])"

definition sanitizeTitle :: "jstring \<Rightarrow> jstring \<Rightarrow> jstring" where
  "sanitizeTitle v query =
     (let cleaned = polishSentence v
      in if length cleaned > 0 then cleaned else js ''Community result for '' @ query)"

text \<open>
  A number in a template literal. The numbers printed are the integers of the listing;
  JavaScript prints an integer below \<open>10\<^sup>2\<^sup>1\<close> in absolute value by its decimal digits.
\<close>

fun digits :: "nat \<Rightarrow> jstring" where
  "digits n = (if n < 10 then [48 + n] else digits (n div 10) @ [48 + n mod 10])"

definition number_toString :: "int \<Rightarrow> jstring" where
  "number_toString n = (if n < 0 then js ''-'' @ digits (nat (- n)) else digits (nat n))"

text \<open>The sentences of a post and the three selections made from them.\<close>

definition card_sentences :: "Post \<Rightarrow> jstring \<Rightarrow> jstring list" where
  "card_sentences post query =
     (let title' = sanitizeTitle (or_else (post_title post) []) query;
          body = polishSentence (or_else (selftext post) []);
          allText = polishSentence (title' @ js ''. '' @ body)
      in splitSentences allText)"

definition whereLines :: "jstring list \<Rightarrow> jstring list" where
  "whereLines sentences =
     pickBestSentences sentences
       [[js ''where'', js ''find'', js ''found'', js ''location'', js ''planet'', js ''system'',
         js ''station'', js ''biome''],
        [js ''farm'', js ''drop'', js ''spawn'', js ''sentinel'', js ''anomaly'', js ''vendor'',
         js ''market'']]
       (js ''Community reports suggest checking mission hubs, planets matching the resource biome, and station trade loops.'')
       2"

definition howLines :: "jstring list \<Rightarrow> jstring list" where
  "howLines sentences =
     pickBestSentences sentences
       [[js ''how'', js ''use'', js ''craft'', js ''build'', js ''route'', js ''method'',
         js ''loop''],
        [js ''tip'', js ''best'', js ''fast'', js ''efficient'', js ''priority'', js ''upgrade'']]
       (js ''Community advice generally favors repeatable loops, inventory prep, and stacking compatible mission objectives.'')
       2"

definition tipCandidates :: "jstring list \<Rightarrow> jstring list" where
  "tipCandidates sentences =
     pickBestSentences sentences
       [[js ''tip'', js ''best'', js ''fast'', js ''efficient'', js ''carry'', js ''stack'',
         js ''prioritize'', js ''avoid'']]
       (js ''Keep route loops short and inventory space ready for faster farming cycles.'')
       3"

text \<open>
  \<open>whereLines[0]\<close> and \<open>howLines[0]\<close>: the first line, or \<open>undefined\<close> (which
  \<open>polishSentence\<close> would fail on) if there were none.
\<close>

definition toSearchResultFromReddit :: "Post \<Rightarrow> jstring \<Rightarrow> SearchType \<Rightarrow> SearchResult option" where
  "toSearchResultFromReddit post query type =
     (let title' = sanitizeTitle (or_else (post_title post) []) query;
          sentences = card_sentences post query;
          subreddit0 = cleanText (or_else (subreddit_name_prefixed post) (js ''r/NoMansSkyTheGame''));
          subreddit = (if subreddit0 = [] then js ''r/NoMansSkyTheGame'' else subreddit0);
          author' = cleanText (or_else (author post) (js ''unknown''));
          score' = or_else (score post) 0;
          comments = or_else (num_comments post) 0
      in case (if type = Where then whereLines sentences else howLines sentences) of
           [] \<Rightarrow> None
         | first # _ \<Rightarrow>
             Some \<lparr> ident = js ''reddit-'' @ or_else (post_id post) (slug title'),
                    title = title',
                    summary = polishSentence first,
                    details = details_block (join_with (js '' '') (whereLines sentences))
                      (join_with (js '' '') (howLines sentences))
                      (map polishSentence (tipCandidates sentences)),
                    source = js ''Live Community Search'',
                    references =
                      [js ''Source set: Reddit live snapshot'',
                       js ''Forum: '' @ subreddit,
                       js ''Engagement: score '' @ number_toString score' @ js '', comments ''
                         @ number_toString comments],
                    redditNotes =
                      [js ''Author: u/'' @ author',
                       js ''External URLs are intentionally removed from this app output.''],
                    faq =
                      [(js ''How current is this guidance for '' @ query @ js ''?'',
                        js ''It is compiled from live community posts at request time and summarized in-app without outbound links.'')],
                    video = None \<rparr>)"

definition buildNoMatchResult_live :: "jstring \<Rightarrow> SearchType \<Rightarrow> SearchResult" where
  "buildNoMatchResult_live query type =
     \<lparr> ident = js ''no-match-'' @ (if slug query = [] then js ''query'' else slug query),
       title = js ''No live community match for \"'' @ query @ js ''\" yet'',
       summary = js ''Try fewer words, singular terms, or the base material/item name.'',
       details = join_with (js ''\<newline>'')
         [js ''Live search returned no strong match in this pass.'',
          js ''Mode used: '' @ modeLabel type @ js ''.'',
          js ''Suggested next tries:'',
          js ''- Use a compact term (example: \"radiant heart\" instead of full sentence).'',
          js ''- Try item, then process (example: nanites, then nanite farm).'',
          js ''- Ask a follow-up in this card and refine step-by-step.''],
       source = js ''Live Community Search'',
       references = [js ''Live snapshot only''],
       redditNotes =
         [js ''Community data may be available on retry; all external links are removed by design.''],
       faq = [(js ''Can this still use Reddit data without links?'',
               js ''Yes. Results can include Reddit-derived summaries while hiding outbound URLs.'')],
       video = None \<rparr>"

section \<open>Live route: coverage filter, deduplication, handler\<close>

record ScoredPost =
  post :: Post
  qualityScore :: real
  overlapTitle :: nat
  overlap :: nat

definition score_post :: "jstring list \<Rightarrow> SearchType \<Rightarrow> Post \<Rightarrow> ScoredPost" where
  "score_post queryTokens type p =
     \<lparr> post = p,
       qualityScore = scoreRedditPost p queryTokens type,
       overlapTitle = countTokenOverlap (or_else (post_title p) []) queryTokens,
       overlap = countTokenOverlap
         (or_else (post_title p) [] @ js '' '' @ or_else (selftext p) []) queryTokens \<rparr>"

text \<open>The admission test of the first \<open>filter\<close> of the handler.\<close>

definition admits :: "jstring list \<Rightarrow> ScoredPost \<Rightarrow> bool" where
  "admits queryTokens item =
     (if length queryTokens = 0 then True
      else
        (let minCoverage = max 1 (nat \<lceil>real (length queryTokens) * 0.5\<rceil>);
             hasStrongCoverage = (overlap item \<ge> minCoverage);
             hasTitleHit = (overlapTitle item \<ge> 1);
             hasUsefulSignal = (qualityScore item \<ge> 7)
         in if length queryTokens = 1 then hasTitleHit \<and> hasUsefulSignal
            else
              (let hasTitleOrVeryStrongBody = (hasTitleHit \<or> overlap item \<ge> minCoverage + 1)
               in hasStrongCoverage \<and> hasTitleOrVeryStrongBody \<and> hasUsefulSignal
                  \<and> hasTitleHit)))"

text \<open>\<open>xs.findIndex(p)\<close>: the first index where \<open>p\<close> holds, or \<open>-1\<close>.\<close>

fun findIndex :: "('a \<Rightarrow> bool) \<Rightarrow> 'a list \<Rightarrow> int" where
  "findIndex p [] = - 1"
| "findIndex p (x # xs) =
     (if p x then 0 else (let r = findIndex p xs in if r < 0 then - 1 else r + 1))"

definition item_title :: "ScoredPost \<Rightarrow> jstring" where
  "item_title item = normalizeForMatch (or_else (post_title (post item)) [])"

text \<open>The second \<open>filter\<close> of the handler, on the sorted array \<open>all\<close>.\<close>

definition dedupe :: "ScoredPost list \<Rightarrow> ScoredPost list" where
  "dedupe all =
     filter_from 0
       (\<lambda>item index.
          (let normalizedTitle = item_title item
           in if normalizedTitle = [] then index = 0
              else findIndex (\<lambda>entry. item_title entry = normalizedTitle) all = int index))
       all"

definition sort_by_quality :: "ScoredPost list \<Rightarrow> ScoredPost list" where
  "sort_by_quality items = sort_key (\<lambda>item. - qualityScore item) items"

definition dedupedRanked :: "jstring list \<Rightarrow> ScoredPost list \<Rightarrow> ScoredPost list" where
  "dedupedRanked queryTokens items =
     dedupe (sort_by_quality (filter (admits queryTokens) items))"

text \<open>
  The route handler. What the retrieval returned is passed in as the list of the
  \<open>data\<close> fields of the children of the listing (a field may be absent); a failed or
  timed-out retrieval is the empty list.
\<close>

definition usable :: "Post option \<Rightarrow> bool" where
  "usable p =
     (case p of
        None \<Rightarrow> False
      | Some d \<Rightarrow> or_else (post_id d) [] \<noteq> [] \<and> or_else (post_title d) [] \<noteq> [])"

definition GET_live ::
  "Post option list \<Rightarrow> jstring option \<Rightarrow> jstring option \<Rightarrow> RouteError + Response" where
  "GET_live children q typeParam =
     (case map_option trim q of
        None \<Rightarrow> Inl MissingQuery
      | Some query \<Rightarrow>
          if query = [] then Inl MissingQuery
          else
            (let type = parse_type typeParam;
                 queryTokens = tokenize_live query;
                 ranked = dedupedRanked queryTokens
                   (map (score_post queryTokens type)
                      (concat (map (\<lambda>p. case p of None \<Rightarrow> [] | Some d \<Rightarrow> [d])
                         (filter usable children))))
             in case those (map (\<lambda>item. toSearchResultFromReddit (post item) query type)
                              (take 8 ranked)) of
                  None \<Rightarrow> Inl TypeError
                | Some redditResults \<Rightarrow>
                    Inr \<lparr> resp_query = query, resp_type = type,
                          results = (if length redditResults > 0 then redditResults
                                     else [buildNoMatchResult_live query type]) \<rparr>))"

section \<open>Follow-up dispatcher\<close>

datatype Role = User | Assistant

record ChatMessage =
  role :: Role
  msg_text :: jstring

definition keywordOverlap :: "jstring \<Rightarrow> jstring \<Rightarrow> int" where
  "keywordOverlap a b =
     (let left = remdups (filter (\<lambda>token. length token > 1) (split_on 32 (normalizeForMatch a)));
          right = set (filter (\<lambda>token. length token > 1) (split_on 32 (normalizeForMatch b)))
      in fold (\<lambda>token score. if token \<in> right then score + 1 else score) left 0)"

text \<open>\<open>xs.sort(...)[0]\<close> on the FAQ entries paired with their overlap.\<close>

definition bestFaq :: "SearchResult \<Rightarrow> jstring \<Rightarrow> ((jstring \<times> jstring) \<times> int) option" where
  "bestFaq result question =
     (case sort_key (\<lambda>x. - snd x)
             (map (\<lambda>item. (item, keywordOverlap question (fst item))) (faq result)) of
        [] \<Rightarrow> None
      | x # _ \<Rightarrow> Some x)"

text \<open>
  The last answer of the dispatcher, when no keyword and no FAQ entry matched. (The
  second prompt holds the code units U+00E2, U+20AC and U+2122 where the source file
  has them.)
\<close>

definition fallback_answer :: "SearchResult \<Rightarrow> bool \<Rightarrow> jstring" where
  "fallback_answer result hasPriorQuestions =
     (let refs =
            (if length (references result) > 0
             then js ''\<newline>\<newline>Reference notes:\<newline>- ''
                  @ join_with (js ''\<newline>- '') (references result)
             else []);
          followUpPrompt =
            (if hasPriorQuestions
             then js ''If you want, ask a narrower follow-up (example: fastest route, required gear, or inventory prep).''
             else js ''Ask another question about route, gear prep, or quickest method and I''
                  @ [226, 8364, 8482] @ js ''ll narrow this down.'')
      in js ''From this result:\<newline>'' @ summary result @ refs @ js ''\<newline>\<newline>'' @ followUpPrompt)"

text \<open>\<open>history.some((message) => message.role === "user")\<close>, the constant \<open>hasPriorQuestions\<close>.\<close>

definition hasPriorQuestions :: "ChatMessage list \<Rightarrow> bool" where
  "hasPriorQuestions history = list_ex (\<lambda>message. role message = User) history"

definition buildFollowUpAnswer :: "SearchResult \<Rightarrow> jstring \<Rightarrow> ChatMessage list \<Rightarrow> jstring" where
  "buildFollowUpAnswer result question history =
     (let q = normalizeForMatch question;
          prior = hasPriorQuestions history;
          lines = split_on 10 (details result)
      in if str_includes q (js ''where'') \<or> str_includes q (js ''find'')
            \<or> str_includes q (js ''location'')
         then js ''Where-to-find summary:\<newline>''
              @ (case lines of [] \<Rightarrow> js ''undefined'' | first # _ \<Rightarrow> first)
         else if str_includes q (js ''how'') \<or> str_includes q (js ''use'')
            \<or> str_includes q (js ''craft'') \<or> str_includes q (js ''build'')
         then or_else (find (\<lambda>line. startsWith (toLowerCase line) (js ''how to use:'')) lines)
                (js ''This entry includes how-to guidance in the details section above.'')
         else if (str_includes q (js ''tip'') \<or> str_includes q (js ''best'')
             \<or> str_includes q (js ''fast'') \<or> str_includes q (js ''efficient''))
            \<and> length (take 2 (filter (\<lambda>line. startsWith line (js ''- '')) lines)) > 0
         then js ''Top tips:\<newline>''
              @ join_with (js ''\<newline>'')
                  (take 2 (filter (\<lambda>line. startsWith line (js ''- '')) lines))
         else if str_includes q (js ''reddit'')
         then (if length (redditNotes result) = 0
               then js ''This entry has no Reddit-derived notes yet.''
               else js ''Reddit references are summarized in-app only:\<newline>''
                    @ join_with (js ''\<newline>'')
                        (map (\<lambda>note. js ''- '' @ note) (redditNotes result)))
         else if str_includes q (js ''video'') \<or> str_includes q (js ''watch'')
         then (if video result \<noteq> None
               then js ''Open the video guide section in this card. It uses a local storyboard format and stays fully in-app.''
               else js ''This entry does not have a curated video clip yet, but I can still help with text guidance from this card.'')
         else
           (case bestFaq result question of
              Some (item, sc) \<Rightarrow>
                if sc > 0 then snd item
                else fallback_answer result prior
            | None \<Rightarrow> fallback_answer result prior))"

section \<open>Notions the properties are stated with\<close>

text \<open>
  A text holds an outbound address when \<open>http://\<close>, \<open>https://\<close> or \<open>www.\<close> (in either
  case of the letters) starts somewhere in it.
\<close>

fun has_url :: "jstring \<Rightarrow> bool" where
  "has_url [] = False"
| "has_url (c # cs) = (case link_prefix (c # cs) of Some _ \<Rightarrow> True | None \<Rightarrow> has_url cs)"



text \<open>
  A post whose title shares no token with the query \<open>radiant heart\<close> and whose body is
  the query itself; it has no votes and no comments.
\<close>

definition body_only_post :: Post where
  "body_only_post =
     \<lparr> post_id = Some (js ''t1''), post_title = Some (js ''Help please''),
       selftext = Some (js ''radiant heart''), subreddit_name_prefixed = None,
       author = None, score = Some 0, num_comments = Some 0 \<rparr>"

text \<open>
  The questions of the first branch of the dispatcher: the normalized question holds
  \<open>where\<close>, \<open>find\<close> or \<open>location\<close>.
\<close>

definition asks_location :: "jstring \<Rightarrow> bool" where
  "asks_location question =
     (str_includes (normalizeForMatch question) (js ''where'')
      \<or> str_includes (normalizeForMatch question) (js ''find'')
      \<or> str_includes (normalizeForMatch question) (js ''location''))"

text \<open>
  The question is answered by one of the five keyword branches (the tip branch answers
  only when the details hold a tip line).
\<close>

definition keyword_branch :: "SearchResult \<Rightarrow> jstring \<Rightarrow> bool" where
  "keyword_branch result question =
     (let q = normalizeForMatch question in
        asks_location question
        \<or> str_includes q (js ''how'') \<or> str_includes q (js ''use'')
        \<or> str_includes q (js ''craft'') \<or> str_includes q (js ''build'')
        \<or> ((str_includes q (js ''tip'') \<or> str_includes q (js ''best'')
             \<or> str_includes q (js ''fast'') \<or> str_includes q (js ''efficient''))
            \<and> filter (\<lambda>line. startsWith line (js ''- '')) (split_on 10 (details result)) \<noteq> [])
        \<or> str_includes q (js ''reddit'')
        \<or> str_includes q (js ''video'') \<or> str_includes q (js ''watch''))"

text \<open>The best FAQ entry shares a token with the question.\<close>

definition faq_match :: "SearchResult \<Rightarrow> jstring \<Rightarrow> bool" where
  "faq_match result question =
     (case bestFaq result question of None \<Rightarrow> False | Some (item, sc) \<Rightarrow> sc > 0)"

text \<open>
  The rank of a sentence as the specification words it: one point for each keyword
  group with a member in the normalized sentence. \<open>ranked\<close> pairs each sentence with
  its points and sorts by points, highest first; \<open>sort_key\<close> keeps the original order
  among equal keys.
\<close>

definition group_hits :: "jstring list list \<Rightarrow> jstring \<Rightarrow> int" where
  "group_hits keywordGroups sentence =
     int (length
       (filter (\<lambda>grp. list_ex (\<lambda>keyword. str_includes (normalizeForMatch sentence) keyword) grp)
          keywordGroups))"

definition ranked :: "jstring list list \<Rightarrow> jstring list \<Rightarrow> (jstring \<times> int) list" where
  "ranked keywordGroups sentences =
     sort_key (\<lambda>item. - snd item)
       (map (\<lambda>sentence. (sentence, group_hits keywordGroups sentence)) sentences)"

text \<open>At least one and at most \<open>n\<close> lines, none of them empty.\<close>

definition nonempty_lines :: "nat \<Rightarrow> jstring list \<Rightarrow> bool" where
  "nonempty_lines n ls = (ls \<noteq> [] \<and> length ls \<le> n \<and> list_all (\<lambda>l. l \<noteq> []) ls)"



text \<open>
  The pieces of a text between its white-space units, empty pieces included: the
  words of the text are the non-empty pieces.
\<close>

fun pieces :: "jstring \<Rightarrow> jstring list" where
  "pieces [] = [[]]"
| "pieces (c # cs) =
     (if is_ws c then [] # pieces cs
      else (case pieces cs of [] \<Rightarrow> [[c]] | w # ws \<Rightarrow> (c # w) # ws))"

text \<open>
  The three ways an entry matches a query in the curated scorer: the exact title, an
  alias inside the query, and (counted per query token) tokens of the searchable text,
  which is the constant \<open>searchable\<close> of the scorer.
\<close>

definition title_matches :: "KnowledgeEntry \<Rightarrow> jstring \<Rightarrow> bool" where
  "title_matches entry query = (normalizeForMatch (kb_title entry) = normalizeForMatch query)"

definition alias_matches :: "KnowledgeEntry \<Rightarrow> jstring \<Rightarrow> bool" where
  "alias_matches entry query =
     list_ex (\<lambda>alias. str_includes (normalizeForMatch query) (normalizeForMatch alias))
       (aliases entry)"

definition searchable_text :: "KnowledgeEntry \<Rightarrow> jstring" where
  "searchable_text entry =
     kb_title entry @ js '' '' @ join_with (js '' '') (aliases entry)
       @ js '' '' @ whereToFind entry @ js '' '' @ howToUse entry
       @ js '' '' @ join_with (js '' '') (tips entry)"

text \<open>
  A post whose title nests four markdown links, each with white space after
  \<open>http://\<close>, between \<open>www\<close> and \<open>.x\<close>; it has no body.
\<close>

definition nested_link_post :: Post where
  "nested_link_post =
     \<lparr> post_id = Some (js ''n1''),
       post_title = Some (js ''www [a]([b]([c]([d](http:// e)http:// d)http:// c)http:// z).x''),
       selftext = None, subreddit_name_prefixed = None,
       author = None, score = None, num_comments = None \<rparr>"

section \<open>Evaluation on literals\<close>

lemmas str_eval = js_def is_ws_def is_lower_alnum_def lower_unit_def toLowerCase_def
  endsWith_def collapse_ws_def trimStart_def trimEnd_def trim_def blank_other_def
  normalizeForMatch_def ascii_lower_def starts_ci_def link_prefix_def

lemmas tok_eval = tokenize_live_def stem_def str_eval

lemmas clean_eval = cleanText_def stripExternalLinks_def deleting_def match_md_link_def
  match_bare_link_def match_amp_def is_markup_def match_newline_run_def str_eval

lemmas polish_eval = polishSentence_def match_pipes_def is_dash_def match_dashes_def is_mark_def
  match_repeat_def is_punct_def match_space_punct_def clean_eval

section \<open>Link stripping\<close>

text \<open>
  Claim C4 (link stripping is link-free and idempotent) fails on the code. On the text
  \<open>[a]([b](http://c)http:// z)\<close> the first replacement removes the inner link
  \<open>[b](http://c)\<close> and so builds the link \<open>[a](http:// z)\<close>, which it does not look
  at again; the second replacement leaves it alone, because white space follows
  \<open>http://\<close>. The result still matches the pattern of a markdown link with an
  \<open>http://\<close> address, and stripping it once more gives the empty text, so stripping
  twice is not stripping once.
\<close>

theorem stripExternalLinks_leaves_link_not_idempotent:
  "stripExternalLinks (js ''[a]([b](http://c)http:// z)'') = js ''[a](http:// z)''
   \<and> match_md_link (js ''[a](http:// z)'') = Some []
   \<and> stripExternalLinks (stripExternalLinks (js ''[a]([b](http://c)http:// z)'')) = []"
  by (simp add: clean_eval)

section \<open>Answer cards and outbound addresses\<close>

text \<open>
  Claim C1 (no card of the search routes holds an outbound address in any text field)
  fails on the code. The live route, asked for \<open>http://evil.example\<close> when the
  retrieval returned no post, answers with the no-match card alone, and the title of
  that card quotes the query as it was typed, address included.
\<close>

theorem no_match_card_title_keeps_query_url:
  "GET_live [] (Some (js ''http://evil.example'')) None =
     Inr \<lparr> resp_query = js ''http://evil.example'', resp_type = Howto,
           results = [buildNoMatchResult_live (js ''http://evil.example'') Howto] \<rparr>
   \<and> title (buildNoMatchResult_live (js ''http://evil.example'') Howto)
       = js ''No live community match for \"http://evil.example\" yet''
   \<and> has_url (title (buildNoMatchResult_live (js ''http://evil.example'') Howto))"
  by (simp add: GET_live_def dedupedRanked_def dedupe_def sort_by_quality_def parse_type_def
      buildNoMatchResult_live_def str_eval)

section \<open>Live scorer\<close>





subsection \<open>The example post, evaluated\<close>

lemma radiant_heart_tokens:
  "tokenize_live (js ''radiant heart'') = [js ''radiant'', js ''heart'']"
  by (simp add: tok_eval)

lemma body_only_title: "cleanText (js ''Help please'') = js ''Help please''"
  by (simp add: clean_eval)

lemma body_only_body: "cleanText (js ''radiant heart'') = js ''radiant heart''"
  by (simp add: clean_eval)

lemma body_only_fields:
  "or_else (post_title body_only_post) [] = js ''Help please''"
  "or_else (selftext body_only_post) [] = js ''radiant heart''"
  "or_else (score body_only_post) 0 + or_else (num_comments body_only_post) 0 = 0"
  by (simp_all add: body_only_post_def or_else_def)

lemma body_only_context: "hasNmsContext body_only_post = False"
  by (simp add: hasNmsContext_def body_only_post_def or_else_def str_eval)

lemma body_only_overlaps:
  "countTokenOverlap (js ''Help please'') [js ''radiant'', js ''heart''] = 0"
  "countTokenOverlap (js ''radiant heart'') [js ''radiant'', js ''heart''] = 2"
  by (simp_all add: countTokenOverlap_def tok_eval)

lemma body_only_keywords:
  "countKeywordHits (js ''Help please'') (MODE_KEYWORDS Howto) = 0"
  "countKeywordHits (js ''radiant heart'') (MODE_KEYWORDS Howto) = 0"
  "countKeywordHits (js ''Help please'') META_TITLE_KEYWORDS = 0"
  by (simp_all add: countKeywordHits_def MODE_KEYWORDS_def META_TITLE_KEYWORDS_def tok_eval)

lemma body_only_engagement: "engagement_of body_only_post = log 10 2"
  by (simp add: engagement_of_def body_only_post_def or_else_def)

lemma body_only_length: "length (js ''radiant heart'') = 13"
  by (simp add: js_def)

lemma body_only_score:
  "scoreRedditPost body_only_post [js ''radiant'', js ''heart''] Howto = 8 + log 10 2 * 2"
proof -
  have "\<not> list_ex (\<lambda>token. token \<in> set META_TITLE_KEYWORDS) [js ''radiant'', js ''heart'']"
    by (simp add: META_TITLE_KEYWORDS_def js_def)
  then show ?thesis
    unfolding scoreRedditPost_def body_only_fields body_only_title body_only_body Let_def
      body_only_overlaps body_only_keywords body_only_engagement body_only_context
      body_only_length
    by simp
qed

lemma body_only_score_no_tokens:
  "scoreRedditPost body_only_post [] Howto = log 10 2 * 2"
  unfolding scoreRedditPost_def body_only_fields body_only_title body_only_body Let_def
    body_only_keywords body_only_engagement body_only_context body_only_length
  by (simp add: countTokenOverlap_def)

lemma body_only_scored:
  "overlapTitle (score_post [js ''radiant'', js ''heart''] Howto body_only_post) = 0"
  "overlap (score_post [js ''radiant'', js ''heart''] Howto body_only_post) = 2"
  "qualityScore (score_post [js ''radiant'', js ''heart''] Howto body_only_post)
     = 8 + log 10 2 * 2"
proof -
  show "overlapTitle (score_post [js ''radiant'', js ''heart''] Howto body_only_post) = 0"
    by (simp add: score_post_def body_only_fields body_only_overlaps)
  show "overlap (score_post [js ''radiant'', js ''heart''] Howto body_only_post) = 2"
    by (simp add: score_post_def body_only_post_def or_else_def countTokenOverlap_def tok_eval)
  show "qualityScore (score_post [js ''radiant'', js ''heart''] Howto body_only_post)
     = 8 + log 10 2 * 2"
    by (simp add: score_post_def body_only_score)
qed

subsection \<open>The weighted sum\<close>



section \<open>Coverage filter\<close>

text \<open>
  Claim C2 as stated (for a query of two tokens or more, a post without a query token
  in its title is admitted when its overlap is at least the minimum coverage plus one
  and its quality score is at least 7) fails on the code: the last conjunct of the
  admission test asks for a title hit whatever the coverage. The example post has
  overlap 2 with the two tokens of \<open>radiant heart\<close>, none of it in the title, and
  quality above 8; it is not admitted.
\<close>

theorem strong_body_without_title_hit_rejected:
  "length (tokenize_live (js ''radiant heart'')) \<ge> 2
   \<and> overlapTitle (score_post (tokenize_live (js ''radiant heart'')) Howto body_only_post) = 0
   \<and> overlap (score_post (tokenize_live (js ''radiant heart'')) Howto body_only_post)
       \<ge> max 1 (nat \<lceil>real (length (tokenize_live (js ''radiant heart''))) * 0.5\<rceil>) + 1
   \<and> qualityScore (score_post (tokenize_live (js ''radiant heart'')) Howto body_only_post) \<ge> 7
   \<and> \<not> admits (tokenize_live (js ''radiant heart''))
         (score_post (tokenize_live (js ''radiant heart'')) Howto body_only_post)"
proof -
  have l: "(0::real) \<le> log 10 2" by simp
  show ?thesis
    unfolding radiant_heart_tokens
    using l by (simp add: body_only_scored admits_def)
qed

text \<open>
  Claim C2 as amended: for a query of two tokens or more, a scored post is admitted
  exactly when its overlap across title and body is at least the minimum coverage
  \<open>max(1, ceil(token_count \<times> 0.5))\<close>, at least one query token is in its title, and its
  quality score is at least 7; a post without a title hit is not admitted, however
  strong its body coverage.
\<close>

theorem admits_multi_token:
  "2 \<le> length qts \<Longrightarrow>
   admits qts item =
     (max 1 (nat \<lceil>real (length qts) * 0.5\<rceil>) \<le> overlap item
      \<and> 1 \<le> overlapTitle item \<and> 7 \<le> qualityScore item)
   \<and> (overlapTitle item = 0 \<longrightarrow> \<not> admits qts item)"
  by (auto simp: admits_def Let_def)

theorem admits_multi_token_witness:
  "2 \<le> length [js ''radiant'', js ''heart'']
   \<and> admits [js ''radiant'', js ''heart'']
        \<lparr>post = body_only_post, qualityScore = 9, overlapTitle = 1, overlap = 2\<rparr>
   \<and> \<not> admits [js ''radiant'', js ''heart'']
        \<lparr>post = body_only_post, qualityScore = 9, overlapTitle = 0, overlap = 2\<rparr>"
  using admits_multi_token [of "[js ''radiant'', js ''heart'']"
      "\<lparr>post = body_only_post, qualityScore = 9, overlapTitle = 1, overlap = 2\<rparr>"]
    admits_multi_token [of "[js ''radiant'', js ''heart'']"
      "\<lparr>post = body_only_post, qualityScore = 9, overlapTitle = 0, overlap = 2\<rparr>"]
  by simp

text \<open>
  Claim C6 as stated (a post is admitted only if its quality score is at least 7) fails
  on the code for a query without tokens: the admission test returns true at once when
  the token list is empty. The query \<open>a\<close> is not empty, its only word is too short to be
  a token, and the example post, of quality below 7, is admitted.
\<close>

theorem tokenless_query_admits_low_quality:
  "trim (js ''a'') \<noteq> []
   \<and> admits (tokenize_live (js ''a'')) (score_post (tokenize_live (js ''a'')) Howto body_only_post)
   \<and> qualityScore (score_post (tokenize_live (js ''a'')) Howto body_only_post) < 7"
proof -
  have t: "tokenize_live (js ''a'') = []"
    by (simp add: tok_eval)
  have "log 10 2 < log 10 (10::real)"
    by (subst log_less_cancel_iff) simp_all
  then have l: "log 10 2 < (1::real)" by simp
  have a: "trim (js ''a'') \<noteq> []" by (simp add: str_eval)
  have b: "admits [] (score_post [] Howto body_only_post)" by (simp add: admits_def)
  have "qualityScore (score_post [] Howto body_only_post) = log 10 2 * 2"
    by (simp add: score_post_def body_only_score_no_tokens)
  then have c: "qualityScore (score_post [] Howto body_only_post) < 7"
    using l by linarith
  show ?thesis
    unfolding t using a b c by blast
qed

text \<open>
  Claim C6 as amended: for a query with at least one token, a scored post is admitted
  only if its quality score is at least 7: with the other inputs unchanged, the score
  6.99 is rejected, and a post admitted at its score is admitted at 7.0; for a query of
  exactly one token, one query token in the title and a quality score of at least 7
  are enough, whatever the coverage of the body. For a query without tokens every
  post is admitted.
\<close>

theorem admits_quality_threshold:
  "(qts \<noteq> [] \<and> admits qts item \<longrightarrow> 7 \<le> qualityScore item)
   \<and> (qts \<noteq> [] \<longrightarrow> \<not> admits qts (item\<lparr>qualityScore := 6.99\<rparr>))
   \<and> (qts \<noteq> [] \<and> admits qts item \<longrightarrow> admits qts (item\<lparr>qualityScore := 7\<rparr>))
   \<and> (length qts = 1 \<and> 1 \<le> overlapTitle item \<and> 7 \<le> qualityScore item \<longrightarrow> admits qts item)
   \<and> (qts = [] \<longrightarrow> admits qts item)"
  by (auto simp: admits_def Let_def)

theorem admits_quality_threshold_witness:
  "[js ''heart''] \<noteq> []
   \<and> admits [js ''heart'']
        \<lparr>post = body_only_post, qualityScore = 7, overlapTitle = 1, overlap = 0\<rparr>
   \<and> \<not> admits [js ''heart'']
        \<lparr>post = body_only_post, qualityScore = 6.99, overlapTitle = 1, overlap = 0\<rparr>"
  using admits_quality_threshold [of "[js ''heart'']"
      "\<lparr>post = body_only_post, qualityScore = 7, overlapTitle = 1, overlap = 0\<rparr>"]
  by simp

section \<open>Follow-up dispatcher\<close>






text \<open>
  Claim C10: the answer of the dispatcher depends on the conversation history only
  through whether the history holds a turn of the user: two histories that agree on
  that give the same answer, for every card and question; and an answer given by a
  keyword branch or by an FAQ match is the same for any two histories.
\<close>

theorem answer_depends_on_history_bit_only:
  "(hasPriorQuestions h1 = hasPriorQuestions h2 \<longrightarrow>
      buildFollowUpAnswer result question h1 = buildFollowUpAnswer result question h2)
   \<and> (keyword_branch result question \<or> faq_match result question \<longrightarrow>
      buildFollowUpAnswer result question h1 = buildFollowUpAnswer result question h2)"
proof (intro conjI impI)
  assume "hasPriorQuestions h1 = hasPriorQuestions h2"
  then show "buildFollowUpAnswer result question h1 = buildFollowUpAnswer result question h2"
    by (simp add: buildFollowUpAnswer_def Let_def)
next
  assume "keyword_branch result question \<or> faq_match result question"
  then show "buildFollowUpAnswer result question h1 = buildFollowUpAnswer result question h2"
    by (auto simp: buildFollowUpAnswer_def keyword_branch_def faq_match_def asks_location_def
        Let_def split: option.splits prod.splits)
qed

theorem answer_depends_on_history_bit_only_witness:
  "hasPriorQuestions [\<lparr>role = User, msg_text = js ''hi''\<rparr>]
     = hasPriorQuestions [\<lparr>role = Assistant, msg_text = js ''a''\<rparr>,
                          \<lparr>role = User, msg_text = js ''b''\<rparr>]
   \<and> buildFollowUpAnswer (toSearchResult oxygen_entry Howto) (js ''zzz'')
         [\<lparr>role = User, msg_text = js ''hi''\<rparr>]
       = buildFollowUpAnswer (toSearchResult oxygen_entry Howto) (js ''zzz'')
           [\<lparr>role = Assistant, msg_text = js ''a''\<rparr>, \<lparr>role = User, msg_text = js ''b''\<rparr>]
   \<and> keyword_branch (toSearchResult oxygen_entry Howto) (js ''where is it'')
   \<and> buildFollowUpAnswer (toSearchResult oxygen_entry Howto) (js ''where is it'')
         [\<lparr>role = User, msg_text = js ''hi''\<rparr>]
       = buildFollowUpAnswer (toSearchResult oxygen_entry Howto) (js ''where is it'') []"
proof -
  have b: "hasPriorQuestions [\<lparr>role = User, msg_text = js ''hi''\<rparr>]
     = hasPriorQuestions [\<lparr>role = Assistant, msg_text = js ''a''\<rparr>,
                          \<lparr>role = User, msg_text = js ''b''\<rparr>]"
    by (simp add: hasPriorQuestions_def)
  have "asks_location (js ''where is it'')"
    by (simp add: asks_location_def str_eval)
  then have k: "keyword_branch (toSearchResult oxygen_entry Howto) (js ''where is it'')"
    by (simp add: keyword_branch_def)
  show ?thesis
    using b k
      answer_depends_on_history_bit_only [of "[\<lparr>role = User, msg_text = js ''hi''\<rparr>]"
        "[\<lparr>role = Assistant, msg_text = js ''a''\<rparr>, \<lparr>role = User, msg_text = js ''b''\<rparr>]"
        "toSearchResult oxygen_entry Howto" "js ''zzz''"]
      answer_depends_on_history_bit_only [of "[\<lparr>role = User, msg_text = js ''hi''\<rparr>]" "[]"
        "toSearchResult oxygen_entry Howto" "js ''where is it''"]
    by blast
qed

section \<open>Sentence selection\<close>

lemma fold_count_int:
  "fold (\<lambda>x sum. sum + (if P x then 1 else 0)) xs (a::int) = a + int (length (filter P xs))"
  by (induction xs arbitrary: a) auto

lemma sentence_score_eq: "sentence_score keywordGroups sentence = group_hits keywordGroups sentence"
  by (simp add: sentence_score_def group_hits_def fold_count_int)

lemma take_filter_from:
  "take (count - i) (filter_from i (\<lambda>item index. Q item \<or> index < count) xs) = take (count - i) xs"
proof (induction xs arbitrary: i)
  case Nil
  then show ?case by simp
next
  case (Cons x xs)
  show ?case
  proof (cases "i < count")
    case True
    then have "count - i = Suc (count - Suc i)" by simp
    then show ?thesis using True Cons [of "Suc i"] by simp
  next
    case False
    then show ?thesis by simp
  qed
qed

lemma sort_key_Nil_iff: "sort_key f xs = [] \<longleftrightarrow> xs = []"
  by (metis length_sort length_0_conv)

lemma pickBestSentences_eq:
  "pickBestSentences sentences keywordGroups fallback count =
     (if sentences = [] \<or> count = 0 then [fallback]
      else map fst (take count (ranked keywordGroups sentences)))"
proof -
  have "take count (filter_from 0 (\<lambda>item index. 0 < snd item \<or> index < count) xs) = take count xs"
    for xs :: "(jstring \<times> int) list"
    using take_filter_from [of count 0 "\<lambda>item. 0 < snd item" xs] by simp
  then show ?thesis
    by (auto simp: pickBestSentences_def ranked_def sentence_score_eq Let_def sort_key_Nil_iff)
qed

lemma ranked_sorted: "sorted (map (\<lambda>item. - snd item) (ranked keywordGroups sentences))"
  by (simp add: ranked_def)

lemma ranked_stable:
  "filter (\<lambda>item. snd item = k) (ranked keywordGroups sentences)
     = filter (\<lambda>item. snd item = k) (map (\<lambda>sentence. (sentence, group_hits keywordGroups sentence)) sentences)"
  using sort_key_stable [of "\<lambda>item. - snd item" "- k"
      "map (\<lambda>sentence. (sentence, group_hits keywordGroups sentence)) sentences"]
  by (simp add: ranked_def)

lemma ranked_positive_count:
  "length (filter (\<lambda>item. 0 < snd item) (ranked keywordGroups sentences))
     = length (filter (\<lambda>sentence. 0 < group_hits keywordGroups sentence) sentences)"
  by (simp add: ranked_def filter_sort filter_map o_def)

lemma backfill_only:
  assumes "item \<in> set (take count (ranked keywordGroups sentences))" and "snd item = 0"
  shows "length (filter (\<lambda>sentence. 0 < group_hits keywordGroups sentence) sentences) < count"
proof -
  let ?r = "ranked keywordGroups sentences"
  from assms(1) obtain i where i: "i < count" "i < length ?r" "?r ! i = item"
    by (auto simp: in_set_conv_nth)
  have "\<not> 0 < snd y" if "y \<in> set (drop i ?r)" for y
  proof -
    from that obtain j where j: "j < length ?r - i" "y = ?r ! (i + j)"
      by (auto simp: in_set_conv_nth)
    have "map (\<lambda>item. - snd item) ?r ! i \<le> map (\<lambda>item. - snd item) ?r ! (i + j)"
      using ranked_sorted [of keywordGroups sentences] j(1)
      by (intro sorted_nth_mono) auto
    then show ?thesis using i j assms(2) by simp
  qed
  then have "filter (\<lambda>item. 0 < snd item) (drop i ?r) = []"
    unfolding filter_empty_conv by blast
  then have "filter (\<lambda>item. 0 < snd item) ?r = filter (\<lambda>item. 0 < snd item) (take i ?r)"
    by (metis append_Nil2 append_take_drop_id filter_append)
  then have "length (filter (\<lambda>item. 0 < snd item) ?r) \<le> i"
    by (metis length_filter_le length_take min.cobounded2 order_trans)
  then show ?thesis
    using i(1) by (simp add: ranked_positive_count)
qed


lemma pickBestSentences_subset:
  "set (pickBestSentences sentences keywordGroups fallback count) \<subseteq> insert fallback (set sentences)"
proof -
  have "set (map fst (take count (ranked keywordGroups sentences))) \<subseteq> set sentences"
    using set_take_subset [of count "ranked keywordGroups sentences"]
    by (auto simp: ranked_def)
  then show ?thesis
    by (auto simp: pickBestSentences_eq)
qed

lemma pickBestSentences_length:
  "0 < count \<Longrightarrow> length (pickBestSentences sentences keywordGroups fallback count) \<le> count"
  by (simp add: pickBestSentences_eq)

lemma pickBestSentences_nonempty:
  "pickBestSentences sentences keywordGroups fallback count \<noteq> []"
  by (simp add: pickBestSentences_eq ranked_def sort_key_Nil_iff)

lemma card_sentences_nonempty: "s \<in> set (card_sentences p query) \<Longrightarrow> s \<noteq> []"
  by (auto simp: card_sentences_def splitSentences_def Let_def)

lemma selection_nonempty_lines:
  assumes "0 < count" and "count \<le> n" and "fallback \<noteq> []"
  shows "nonempty_lines n
           (pickBestSentences (card_sentences p query) keywordGroups fallback count)"
proof -
  have "l \<noteq> []"
    if "l \<in> set (pickBestSentences (card_sentences p query) keywordGroups fallback count)" for l
    using that assms(3) pickBestSentences_subset card_sentences_nonempty by blast
  then show ?thesis
    using assms(1,2) pickBestSentences_length [of count "card_sentences p query" keywordGroups fallback]
    by (simp add: nonempty_lines_def pickBestSentences_nonempty list_all_iff)
qed

lemma card_lines_nonempty:
  "nonempty_lines 2 (whereLines (card_sentences p query))"
  "nonempty_lines 2 (howLines (card_sentences p query))"
  "nonempty_lines 3 (tipCandidates (card_sentences p query))"
  unfolding whereLines_def howLines_def tipCandidates_def
  by (rule selection_nonempty_lines; simp add: js_def)+

lemma toSearchResultFromReddit_defined: "toSearchResultFromReddit p query type \<noteq> None"
  using card_lines_nonempty(1,2) [of p query]
  by (auto simp: toSearchResultFromReddit_def nonempty_lines_def Let_def split: list.splits)

text \<open>
  The sentence selector: for every list of sentences, the empty list included, a call
  for at most \<open>count \<ge> 1\<close> sentences returns a non-empty list of at most \<open>count\<close>
  sentences: the fixed fallback sentence alone when there is no sentence, and
  otherwise the first \<open>count\<close> sentences in the order of their points (one point for
  each keyword group with a member in the sentence, ties in the original order). A
  sentence without points is among them only when fewer than \<open>count\<close> sentences have
  points. The where, how and tip selections made for a card (at most 2, 2 and 3
  sentences) are there and no selected sentence is empty, and the card is built.
\<close>

theorem pickBestSentences_selection:
  "0 < count \<Longrightarrow>
     pickBestSentences sentences keywordGroups fallback count \<noteq> []
   \<and> length (pickBestSentences sentences keywordGroups fallback count) \<le> count
   \<and> (sentences = [] \<longrightarrow> pickBestSentences sentences keywordGroups fallback count = [fallback])
   \<and> (sentences \<noteq> [] \<longrightarrow>
        pickBestSentences sentences keywordGroups fallback count
          = map fst (take count (ranked keywordGroups sentences)))
   \<and> sorted (map (\<lambda>item. - snd item) (ranked keywordGroups sentences))
   \<and> (\<forall>k. filter (\<lambda>item. snd item = k) (ranked keywordGroups sentences)
          = filter (\<lambda>item. snd item = k)
              (map (\<lambda>sentence. (sentence, group_hits keywordGroups sentence)) sentences))
   \<and> ((\<exists>item \<in> set (take count (ranked keywordGroups sentences)). snd item = 0) \<longrightarrow>
        length (filter (\<lambda>sentence. 0 < group_hits keywordGroups sentence) sentences) < count)
   \<and> nonempty_lines 2 (whereLines (card_sentences p query))
   \<and> nonempty_lines 2 (howLines (card_sentences p query))
   \<and> nonempty_lines 3 (tipCandidates (card_sentences p query))
   \<and> toSearchResultFromReddit p query type \<noteq> None"
proof (intro conjI impI allI)
  assume c: "0 < count"
  show "pickBestSentences sentences keywordGroups fallback count \<noteq> []"
    by (rule pickBestSentences_nonempty)
  show "length (pickBestSentences sentences keywordGroups fallback count) \<le> count"
    using c by (rule pickBestSentences_length)
  show "pickBestSentences sentences keywordGroups fallback count = [fallback]"
    if "sentences = []"
    using that by (simp add: pickBestSentences_eq)
  show "pickBestSentences sentences keywordGroups fallback count
          = map fst (take count (ranked keywordGroups sentences))"
    if "sentences \<noteq> []"
    using that c by (simp add: pickBestSentences_eq)
  show "sorted (map (\<lambda>item. - snd item) (ranked keywordGroups sentences))"
    by (rule ranked_sorted)
  show "filter (\<lambda>item. snd item = k) (ranked keywordGroups sentences)
          = filter (\<lambda>item. snd item = k)
              (map (\<lambda>sentence. (sentence, group_hits keywordGroups sentence)) sentences)"
    for k
    by (rule ranked_stable)
  show "length (filter (\<lambda>sentence. 0 < group_hits keywordGroups sentence) sentences) < count"
    if "\<exists>item \<in> set (take count (ranked keywordGroups sentences)). snd item = 0"
    using that backfill_only by blast
  show "nonempty_lines 2 (whereLines (card_sentences p query))"
    "nonempty_lines 2 (howLines (card_sentences p query))"
    "nonempty_lines 3 (tipCandidates (card_sentences p query))"
    by (rule card_lines_nonempty)+
  show "toSearchResultFromReddit p query type \<noteq> None"
    by (rule toSearchResultFromReddit_defined)
qed

theorem pickBestSentences_selection_witness:
  "(0::nat) < 2
   \<and> pickBestSentences [] [[js ''where'', js ''find''], [js ''farm'']] (js ''Look around.'') 2
       = [js ''Look around.'']
   \<and> pickBestSentences [js ''Hello world.''] [[js ''where'', js ''find''], [js ''farm'']]
         (js ''Look around.'') 2
       = [js ''Hello world.'']"
proof -
  have c: "(0::nat) < 2" by simp
  have "map fst (take 2 (ranked [[js ''where'', js ''find''], [js ''farm'']] [js ''Hello world.'']))
      = [js ''Hello world.'']"
    by (simp add: ranked_def)
  then show ?thesis
    using pickBestSentences_selection [OF c, of "[]" "[[js ''where'', js ''find''], [js ''farm'']]"
        "js ''Look around.''"]
      pickBestSentences_selection [OF c, of "[js ''Hello world.'']"
        "[[js ''where'', js ''find''], [js ''farm'']]" "js ''Look around.''"]
    by simp
qed

section \<open>Ranking and deduplication of live posts\<close>



















subsection \<open>Four scored posts, ranked\<close>







section \<open>Curated scorer\<close>

subsection \<open>Tokens are the words of the text\<close>

lemma split_on_not_Nil: "split_on d s \<noteq> []"
  by (induction s) (auto split: list.splits)

lemma pieces_not_Nil: "pieces s \<noteq> []"
  by (induction s) (auto split: list.splits)

lemma split_on_Cons:
  "split_on d (c # cs) =
     (if c = d then [] # split_on d cs else (c # hd (split_on d cs)) # tl (split_on d cs))"
  using split_on_not_Nil [of d cs] by (cases "split_on d cs") auto

lemma pieces_Cons:
  "pieces (c # cs) =
     (if is_ws c then [] # pieces cs else (c # hd (pieces cs)) # tl (pieces cs))"
  using pieces_not_Nil [of cs] by (cases "pieces cs") auto

lemma space_is_ws: "is_ws 32"
  by (simp add: is_ws_def)

lemma pieces_append:
  "is_ws c \<Longrightarrow> pieces (a @ c # b) = pieces a @ pieces b"
proof (induction a)
  case Nil
  then show ?case by simp
next
  case (Cons x a)
  then show ?case
    using pieces_not_Nil [of a] by (cases "pieces a") (auto simp: pieces_Cons)
qed

lemma filter_tl_eq:
  assumes "filter P xs = filter P ys" "xs \<noteq> []" "ys \<noteq> []" "hd xs = hd ys"
  shows "filter P (tl xs) = filter P (tl ys)"
  using assms by (cases xs; cases ys) (auto split: if_splits)

lemma collapse_pieces:
  "filter (\<lambda>t. t \<noteq> []) (split_on 32 (collapse_from b y)) = filter (\<lambda>t. t \<noteq> []) (pieces y)
   \<and> ((y = [] \<or> \<not> is_ws (hd y)) \<longrightarrow> hd (split_on 32 (collapse_from b y)) = hd (pieces y))"
proof (induction y arbitrary: b)
  case Nil
  then show ?case by simp
next
  case (Cons c cs)
  show ?case
  proof (cases "is_ws c")
    case True
    then show ?thesis
      using Cons [of True] by (simp add: split_on_Cons del: split_on.simps(2))
  next
    case False
    then have c: "c \<noteq> 32" using space_is_ws by auto
    let ?sz = "split_on 32 (collapse_from False cs)"
    let ?pz = "pieces cs"
    have f: "filter (\<lambda>t. t \<noteq> []) ?sz = filter (\<lambda>t. t \<noteq> []) ?pz"
      using Cons [of False] by simp
    have h: "hd ?sz = hd ?pz"
    proof (cases "cs = [] \<or> \<not> is_ws (hd cs)")
      case True
      then show ?thesis using Cons [of False] by simp
    next
      case False
      then obtain d cs' where "cs = d # cs'" "is_ws d" by (cases cs) auto
      then show ?thesis by (simp add: split_on_Cons del: split_on.simps(2))
    qed
    have t: "filter (\<lambda>t. t \<noteq> []) (tl ?sz) = filter (\<lambda>t. t \<noteq> []) (tl ?pz)"
      using f h split_on_not_Nil pieces_not_Nil by (intro filter_tl_eq)
    show ?thesis
      using False c h t
      by (simp add: split_on_Cons pieces_Cons del: split_on.simps(2) pieces.simps(2))
  qed
qed

lemma collapse_only_spaces: "c \<in> set (collapse_from b y) \<Longrightarrow> is_ws c \<Longrightarrow> c = 32"
  by (induction y arbitrary: b) (auto split: if_splits)

lemma split_on_trimStart:
  assumes "\<forall>c\<in>set z. is_ws c \<longrightarrow> c = 32"
  shows "filter (\<lambda>t. t \<noteq> []) (split_on 32 (dropWhile is_ws z))
    = filter (\<lambda>t. t \<noteq> []) (split_on 32 z)"
  using assms
proof (induction z)
  case Nil
  then show ?case by simp
next
  case (Cons c cs)
  show ?case
  proof (cases "is_ws c")
    case True
    then have "c = 32" using Cons.prems by simp
    then show ?thesis using True Cons by simp
  next
    case False
    then show ?thesis by simp
  qed
qed

lemma split_on_snoc: "split_on d (u @ [d]) = split_on d u @ [[]]"
  using split_on_not_Nil [of d]
  by (induction u) (auto simp: split_on_Cons simp del: split_on.simps(2))

lemma split_on_trailing:
  assumes "\<forall>c\<in>set t. c = 32"
  shows "filter (\<lambda>t. t \<noteq> []) (split_on 32 (u @ t))
    = filter (\<lambda>t. t \<noteq> []) (split_on 32 u)"
  using assms
proof (induction t rule: rev_induct)
  case Nil
  then show ?case by simp
next
  case (snoc x t)
  then have "x = 32" by simp
  then have "split_on 32 (u @ t @ [x]) = split_on 32 (u @ t) @ [[]]"
    using split_on_snoc [of 32 "u @ t"] by simp
  moreover have "filter (\<lambda>t. t \<noteq> []) (split_on 32 (u @ t))
      = filter (\<lambda>t. t \<noteq> []) (split_on 32 u)"
    using snoc by simp
  ultimately show ?case by simp
qed

lemma split_on_trimEnd:
  assumes "\<forall>c\<in>set z. is_ws c \<longrightarrow> c = 32"
  shows "filter (\<lambda>t. t \<noteq> []) (split_on 32 (trimEnd z)) = filter (\<lambda>t. t \<noteq> []) (split_on 32 z)"
proof -
  have z: "z = trimEnd z @ rev (takeWhile is_ws (rev z))"
    unfolding trimEnd_def by (metis rev_append rev_rev_ident takeWhile_dropWhile_id)
  have "\<forall>c\<in>set (rev (takeWhile is_ws (rev z))). c = 32"
  proof
    fix c
    assume "c \<in> set (rev (takeWhile is_ws (rev z)))"
    then have "c \<in> set (takeWhile is_ws (rev z))" by simp
    then have "is_ws c" "c \<in> set z"
      using set_takeWhileD [of c is_ws "rev z"] by auto
    then show "c = 32" using assms by simp
  qed
  then have "filter (\<lambda>t. t \<noteq> []) (split_on 32 (trimEnd z @ rev (takeWhile is_ws (rev z))))
      = filter (\<lambda>t. t \<noteq> []) (split_on 32 (trimEnd z))"
    by (rule split_on_trailing)
  then show ?thesis using z by simp
qed

lemma split_trim_collapse:
  "filter (\<lambda>t. t \<noteq> []) (split_on 32 (trim (collapse_ws y))) = filter (\<lambda>t. t \<noteq> []) (pieces y)"
proof -
  let ?z = "collapse_ws y"
  have a: "\<forall>c\<in>set ?z. is_ws c \<longrightarrow> c = 32"
    using collapse_only_spaces unfolding collapse_ws_def by blast
  have "set (trimStart ?z) \<subseteq> set ?z"
    unfolding trimStart_def using set_dropWhileD by fast
  then have b: "\<forall>c\<in>set (trimStart ?z). is_ws c \<longrightarrow> c = 32"
    using a by blast
  have "filter (\<lambda>t. t \<noteq> []) (split_on 32 (trim ?z))
      = filter (\<lambda>t. t \<noteq> []) (split_on 32 (trimStart ?z))"
    unfolding trim_def using b by (rule split_on_trimEnd)
  also have "\<dots> = filter (\<lambda>t. t \<noteq> []) (split_on 32 ?z)"
    unfolding trimStart_def using a by (rule split_on_trimStart)
  also have "\<dots> = filter (\<lambda>t. t \<noteq> []) (pieces y)"
    using collapse_pieces [of False y] by (simp add: collapse_ws_def)
  finally show ?thesis .
qed

lemma tokenize_local_pieces:
  "tokenize_local v = filter (\<lambda>t. length t > 1) (pieces (blank_other (toLowerCase v)))"
proof -
  have "filter (\<lambda>t. length t > 1) xs = filter (\<lambda>t. length t > 1) (filter (\<lambda>t. t \<noteq> []) xs)"
    for xs :: "jstring list"
    by (induction xs) auto
  then show ?thesis
    unfolding tokenize_local_def normalizeForMatch_def
    by (metis split_trim_collapse)
qed

lemma tokenize_local_append:
  "tokenize_local (a @ js '' '' @ b) = tokenize_local a @ tokenize_local b"
proof -
  have "blank_other (toLowerCase (a @ js '' '' @ b))
      = blank_other (toLowerCase a) @ 32 # blank_other (toLowerCase b)"
    by (simp add: blank_other_def toLowerCase_def lower_unit_def js_def is_ws_def)
  then show ?thesis
    by (simp add: tokenize_local_pieces pieces_append space_is_ws)
qed

subsection \<open>The score as a sum\<close>

lemma fold_add_if:
  "fold (\<lambda>x s. if P x then s + k else s) xs (a::int) = a + k * int (length (filter P xs))"
  by (induction xs arbitrary: a) (auto simp: algebra_simps)

lemma scoreEntry_sum:
  "scoreEntry entry query =
     (if title_matches entry query then 120 else 0)
     + 80 * int (length (filter (\<lambda>alias. str_includes (normalizeForMatch query) (normalizeForMatch alias))
                           (aliases entry)))
     + 12 * int (length (filter (\<lambda>token. token \<in> set (tokenize_local (searchable_text entry)))
                           (tokenize_local query)))"
  by (simp add: scoreEntry_def title_matches_def searchable_text_def Let_def fold_add_if)

lemma title_tokens_searchable:
  "set (tokenize_local (kb_title entry)) \<subseteq> set (tokenize_local (searchable_text entry))"
  by (simp add: searchable_text_def tokenize_local_append)

lemma title_match_tokens:
  "title_matches entry query \<Longrightarrow> tokenize_local query = tokenize_local (kb_title entry)"
  by (simp add: title_matches_def tokenize_local_def)

text \<open>
  Claim C8: for every query whose normalized form equals the normalized title of a
  knowledge entry, the score of that entry is strictly above the score of every entry
  matched by token overlap alone (no exact title, no alias inside the query), however
  many query tokens the searchable text of the other entry holds.
\<close>

theorem exact_title_beats_token_overlap:
  "title_matches e query \<and> \<not> title_matches f query \<and> \<not> alias_matches f query
   \<longrightarrow> scoreEntry f query < scoreEntry e query"
proof
  assume a: "title_matches e query \<and> \<not> title_matches f query \<and> \<not> alias_matches f query"
  let ?n = "int (length (tokenize_local query))"
  have "filter (\<lambda>alias. str_includes (normalizeForMatch query) (normalizeForMatch alias)) (aliases f) = []"
    using a by (auto simp: alias_matches_def list_ex_iff filter_empty_conv)
  then have "scoreEntry f query
      = 12 * int (length (filter (\<lambda>token. token \<in> set (tokenize_local (searchable_text f)))
                           (tokenize_local query)))"
    using a by (simp add: scoreEntry_sum)
  also have "\<dots> \<le> 12 * ?n"
    by simp
  finally have f: "scoreEntry f query \<le> 12 * ?n" .
  have "filter (\<lambda>token. token \<in> set (tokenize_local (searchable_text e))) (tokenize_local query)
      = tokenize_local query"
    using a title_tokens_searchable [of e] title_match_tokens [of e query]
    by (auto simp: filter_id_conv)
  then have "scoreEntry e query \<ge> 120 + 12 * ?n"
    using a by (simp add: scoreEntry_sum)
  then show "scoreEntry f query < scoreEntry e query"
    using f by linarith
qed

lemma salvaged_data_matches:
  "title_matches salvaged_data_entry (js ''Salvaged Data'')"
  "\<not> title_matches nanites_entry (js ''Salvaged Data'')"
  "\<not> alias_matches nanites_entry (js ''Salvaged Data'')"
    by (simp_all add: title_matches_def alias_matches_def salvaged_data_entry_def
        nanites_entry_def str_eval)

lemma nanites_score_for_salvaged_data:
  "scoreEntry nanites_entry (js ''Salvaged Data'') = 12"
  by (simp add: scoreEntry_def tokenize_local_def nanites_entry_def str_eval)

theorem exact_title_beats_token_overlap_witness:
  "title_matches salvaged_data_entry (js ''Salvaged Data'')
   \<and> \<not> title_matches nanites_entry (js ''Salvaged Data'')
   \<and> \<not> alias_matches nanites_entry (js ''Salvaged Data'')
   \<and> scoreEntry nanites_entry (js ''Salvaged Data'') = 12
   \<and> scoreEntry nanites_entry (js ''Salvaged Data'')
       < scoreEntry salvaged_data_entry (js ''Salvaged Data'')"
  using salvaged_data_matches nanites_score_for_salvaged_data
    exact_title_beats_token_overlap [of salvaged_data_entry "js ''Salvaged Data''" nanites_entry]
  by blast

section \<open>Content of a live card\<close>

lemma nested_fields:
  "or_else (post_title nested_link_post) []
     = js ''www [a]([b]([c]([d](http:// e)http:// d)http:// c)http:// z).x''"
  "or_else (selftext nested_link_post) [] = []"
  "or_else (post_id nested_link_post) x = js ''n1''"
  "or_else (subreddit_name_prefixed nested_link_post) y = y"
  "or_else (author nested_link_post) y = y"
  "or_else (score nested_link_post) 0 = 0"
  "or_else (num_comments nested_link_post) 0 = 0"
  by (simp_all add: nested_link_post_def or_else_def)

lemma nested_sentences: "card_sentences nested_link_post (js ''www'') = [js ''www.x.'']"
  unfolding card_sentences_def nested_fields
  by (simp add: sanitizeTitle_def splitSentences_def is_stop_def Let_def polish_eval)


lemma nested_title:
  "sanitizeTitle (js ''www [a]([b]([c]([d](http:// e)http:// d)http:// c)http:// z).x'') q
     = js ''www [a]([b]([c](http:// d)http:// c)http:// z).x''"
  by (simp add: sanitizeTitle_def Let_def polish_eval)

lemma nested_polish_again: "polishSentence (js ''www.x.'') = []"
  by (simp add: polish_eval)

lemma nested_selections:
  "whereLines [js ''www.x.''] = [js ''www.x.'']"
  "howLines [js ''www.x.''] = [js ''www.x.'']"
  "tipCandidates [js ''www.x.''] = [js ''www.x.'']"
  by (simp_all add: whereLines_def howLines_def tipCandidates_def pickBestSentences_eq ranked_def)

lemma nested_labels:
  "cleanText (js ''r/NoMansSkyTheGame'') = js ''r/NoMansSkyTheGame''"
  "cleanText (js ''unknown'') = js ''unknown''"
  "number_toString 0 = js ''0''"
  by (simp_all add: number_toString_def clean_eval)

lemma nested_card:
  "toSearchResultFromReddit nested_link_post (js ''www'') Howto =
     Some \<lparr> ident = js ''reddit-n1'',
            title = js ''www [a]([b]([c](http:// d)http:// c)http:// z).x'',
            summary = [],
            details = js ''Where to find: www.x.\<newline>How to use: www.x.\<newline>Tips:\<newline>- '',
            source = js ''Live Community Search'',
            references =
              [js ''Source set: Reddit live snapshot'',
               js ''Forum: r/NoMansSkyTheGame'',
               js ''Engagement: score 0, comments 0''],
            redditNotes =
              [js ''Author: u/unknown'',
               js ''External URLs are intentionally removed from this app output.''],
            faq =
              [(js ''How current is this guidance for www?'',
                js ''It is compiled from live community posts at request time and summarized in-app without outbound links.'')],
            video = None \<rparr>"
proof -
  have n: "js ''r/NoMansSkyTheGame'' \<noteq> []" by (simp add: js_def)
  have p: "polishSentence [119, 119, 119, 46, 120, 46] = []"
    using nested_polish_again by (simp add: js_def)
  show ?thesis
    unfolding toSearchResultFromReddit_def nested_sentences nested_fields nested_title
      nested_selections nested_labels Let_def
    using n by (simp add: p details_block_def js_def)
qed

lemma nested_tokens: "tokenize_live (js ''www'') = [js ''www'']"
  by (simp add: tok_eval)

lemma nested_clean_title:
  "cleanText (js ''www [a]([b]([c]([d](http:// e)http:// d)http:// c)http:// z).x'')
     = js ''www [a]([b]([c](http:// d)http:// c)http:// z).x''"
  by (simp add: clean_eval)

lemma nested_counts:
  "countTokenOverlap (js ''www [a]([b]([c](http:// d)http:// c)http:// z).x'') [js ''www''] = 1"
  "countTokenOverlap (js ''www [a]([b]([c]([d](http:// e)http:// d)http:// c)http:// z).x'') [js ''www''] = 1"
  "countKeywordHits (js ''www [a]([b]([c](http:// d)http:// c)http:// z).x'') (MODE_KEYWORDS Howto) = 0"
  "countKeywordHits (js ''www [a]([b]([c](http:// d)http:// c)http:// z).x'') META_TITLE_KEYWORDS = 0"
  by (simp_all add: countTokenOverlap_def countKeywordHits_def MODE_KEYWORDS_def
      META_TITLE_KEYWORDS_def tok_eval)

lemma nested_context: "hasNmsContext nested_link_post = False"
  unfolding hasNmsContext_def nested_fields by (simp add: str_eval)

lemma nested_score:
  "scoreRedditPost nested_link_post [js ''www''] Howto = 10 + log 10 2 * 2"
proof -
  have m: "\<not> list_ex (\<lambda>token. token \<in> set META_TITLE_KEYWORDS) [js ''www'']"
    by (simp add: META_TITLE_KEYWORDS_def js_def)
  have c: "cleanText [] = []" by (simp add: clean_eval)
  have e: "engagement_of nested_link_post = log 10 2"
    by (simp add: engagement_of_def nested_fields)
  have z: "countTokenOverlap [] [js ''www''] = 0" "countKeywordHits [] (MODE_KEYWORDS Howto) = 0"
    by (simp_all add: countTokenOverlap_def countKeywordHits_def MODE_KEYWORDS_def tok_eval)
  show ?thesis
    unfolding scoreRedditPost_def nested_fields nested_clean_title c Let_def nested_counts z e
      nested_context
    using m by simp
qed

lemma nested_item_title:
  "item_title (score_post [js ''www''] Howto nested_link_post)
     = js ''www a b c d http e http d http c http z x''"
  unfolding item_title_def score_post_def
  by (simp add: nested_fields str_eval)

text \<open>
  Claim C7 (every call of the sentence selector returns between one and N sentences,
  ranked by keyword groups with the fallback sentence as last resort, so every live
  answer card has non-empty where, how and tip content) fails on the code in its last
  part. The card builder polishes the selected sentences once more for the summary and
  for each tip line, and polishing is not idempotent. The example post, found for the
  query \<open>www\<close> with one title hit and a quality above 10, has the single sentence
  \<open>www.x.\<close> after the four polishing passes before the selection; the fifth pass
  removes it as a bare link. The live route answers with one card whose summary is
  empty and whose only tip line is \<open>- \<close>.
\<close>

theorem live_card_with_empty_summary_and_tip:
  "GET_live [Some nested_link_post] (Some (js ''www'')) None =
     Inr \<lparr> resp_query = js ''www'', resp_type = Howto,
           results =
             [\<lparr> ident = js ''reddit-n1'',
                title = js ''www [a]([b]([c](http:// d)http:// c)http:// z).x'',
                summary = [],
                details = js ''Where to find: www.x.\<newline>How to use: www.x.\<newline>Tips:\<newline>- '',
                source = js ''Live Community Search'',
                references =
                  [js ''Source set: Reddit live snapshot'',
                   js ''Forum: r/NoMansSkyTheGame'',
                   js ''Engagement: score 0, comments 0''],
                redditNotes =
                  [js ''Author: u/unknown'',
                   js ''External URLs are intentionally removed from this app output.''],
                faq =
                  [(js ''How current is this guidance for www?'',
                    js ''It is compiled from live community posts at request time and summarized in-app without outbound links.'')],
                video = None \<rparr>] \<rparr>"
proof -
  let ?item = "score_post [js ''www''] Howto nested_link_post"
  have q: "map_option trim (Some (js ''www'')) = Some (js ''www'')" "js ''www'' \<noteq> []"
    by (simp_all add: str_eval)
  have u: "usable (Some nested_link_post)"
    by (simp add: usable_def nested_link_post_def or_else_def js_def)
  have l: "(0::real) \<le> log 10 2" by simp
  have "qualityScore ?item = 10 + log 10 2 * 2"
    by (simp add: score_post_def nested_score)
  then have s: "7 \<le> qualityScore ?item" using l by linarith
  have "overlapTitle ?item = 1"
    by (simp add: score_post_def nested_fields nested_counts)
  then have a: "admits [js ''www''] ?item"
    using s by (simp add: admits_def)
  have "js ''www a b c d http e http d http c http z x'' \<noteq> []"
    by (simp add: js_def)
  then have d: "dedupe [?item] = [?item]"
    by (simp add: dedupe_def Let_def nested_item_title)
  have r: "dedupedRanked [js ''www''] [?item] = [?item]"
    using a d by (simp add: dedupedRanked_def sort_by_quality_def)
  have p: "post ?item = nested_link_post"
    by (simp add: score_post_def)
  show ?thesis
    unfolding GET_live_def q
    by (simp add: q u parse_type_def nested_tokens r p nested_card)
qed

end
